theory Spec2Isabelle
  imports Complex_Main
begin

section \<open>Driver safety system: geometry, drowsiness state machine, fusion, alerts\<close>

text \<open>
  A shallow embedding of \<^verbatim>\<open>detect_drowsiness.py\<close>, \<^verbatim>\<open>heart_rate_model.py\<close>,
  \<^verbatim>\<open>alert.py\<close> and of \<^verbatim>\<open>get_risk_level\<close> in \<^verbatim>\<open>app.py\<close>.

  Numbers. Python integers are \<open>int\<close>. A finite float is idealised as a \<open>real\<close>
  (rounding error of the binary representation is not modelled); the two places where
  the source divides numpy floats keep the exceptional results of that division
  (infinity, NaN), since the source has no guard of its own there.
\<close>

subsection \<open>Errors and float results\<close>

datatype py_error =
    IndexError
  | KeyError string
  | RuntimeError string
  | ValueError

text \<open>
  The result of a numpy \<open>float64\<close> operation: a finite value, an infinity or NaN.
  Dividing by zero does not raise for \<open>float64\<close> (it only warns).
\<close>

datatype fval = Fin real | PInf | NInf | NaN

definition fdiv :: "real \<Rightarrow> real \<Rightarrow> fval" where
  "fdiv a b =
     (if b \<noteq> 0 then Fin (a / b)
      else if 0 < a then PInf
      else if a < 0 then NInf
      else NaN)"

fun fadd :: "fval \<Rightarrow> fval \<Rightarrow> fval" where
  "fadd (Fin a) (Fin b) = Fin (a + b)"
| "fadd NaN _ = NaN"
| "fadd _ NaN = NaN"
| "fadd PInf NInf = NaN"
| "fadd NInf PInf = NaN"
| "fadd PInf _ = PInf"
| "fadd _ PInf = PInf"
| "fadd NInf _ = NInf"
| "fadd _ NInf = NInf"

text \<open>Division of a float result by the positive constant \<open>2.0\<close>.\<close>

fun fhalf :: "fval \<Rightarrow> fval" where
  "fhalf (Fin a) = Fin (a / 2)"
| "fhalf v = v"

text \<open>\<open>v < t\<close> and \<open>v > t\<close> for a finite \<open>t\<close>: every comparison with NaN is false.\<close>

fun flt :: "fval \<Rightarrow> real \<Rightarrow> bool" where
  "flt (Fin a) t = (a < t)"
| "flt NInf t = True"
| "flt PInf t = False"
| "flt NaN t = False"

fun fgt :: "fval \<Rightarrow> real \<Rightarrow> bool" where
  "fgt (Fin a) t = (t < a)"
| "fgt PInf t = True"
| "fgt NInf t = False"
| "fgt NaN t = False"

text \<open>Rounding to the nearest integer, ties to the even one, as \<open>round\<close> does.\<close>

definition round_half_even :: "real \<Rightarrow> int" where
  "round_half_even x =
     (let f = \<lfloor>x\<rfloor>; d = x - of_int f
      in if d < 1 / 2 then f
         else if 1 / 2 < d then f + 1
         else if even f then f else f + 1)"

definition round_digits :: "real \<Rightarrow> nat \<Rightarrow> real" where
  "round_digits x n = of_int (round_half_even (x * 10 ^ n)) / 10 ^ n"

fun fround :: "fval \<Rightarrow> nat \<Rightarrow> fval" where
  "fround (Fin a) n = Fin (round_digits a n)"
| "fround v n = v"

subsection \<open>GeometryAnalyzer: \<^verbatim>\<open>eye_aspect_ratio\<close>, \<^verbatim>\<open>mouth_aspect_ratio\<close>\<close>

type_synonym point = "real \<times> real"

definition euclidean :: "point \<Rightarrow> point \<Rightarrow> real" where
  "euclidean p q = sqrt ((fst p - fst q)\<^sup>2 + (snd p - snd q)\<^sup>2)"

text \<open>Indexing an array: out of range raises \<open>IndexError\<close>.\<close>

definition item :: "'a list \<Rightarrow> nat \<Rightarrow> py_error + 'a" where
  "item xs i = (if i < length xs then Inr (xs ! i) else Inl IndexError)"

definition dist_at :: "point list \<Rightarrow> nat \<Rightarrow> nat \<Rightarrow> py_error + real" where
  "dist_at xs i j =
     (case item xs i of
        Inl e \<Rightarrow> Inl e
      | Inr p \<Rightarrow> (case item xs j of Inl e \<Rightarrow> Inl e | Inr q \<Rightarrow> Inr (euclidean p q)))"

definition eye_aspect_ratio :: "point list \<Rightarrow> py_error + fval" where
  "eye_aspect_ratio eye =
     (case dist_at eye 1 5 of Inl e \<Rightarrow> Inl e | Inr A \<Rightarrow>
      case dist_at eye 2 4 of Inl e \<Rightarrow> Inl e | Inr B \<Rightarrow>
      case dist_at eye 0 3 of Inl e \<Rightarrow> Inl e | Inr C \<Rightarrow>
        Inr (fdiv (A + B) (2 * C)))"

definition mouth_aspect_ratio :: "point list \<Rightarrow> py_error + fval" where
  "mouth_aspect_ratio mouth =
     (case dist_at mouth 13 19 of Inl e \<Rightarrow> Inl e | Inr A \<Rightarrow>
      case dist_at mouth 14 18 of Inl e \<Rightarrow> Inl e | Inr B \<Rightarrow>
      case dist_at mouth 15 17 of Inl e \<Rightarrow> Inl e | Inr C \<Rightarrow>
      case dist_at mouth 12 16 of Inl e \<Rightarrow> Inl e | Inr D \<Rightarrow>
        Inr (fdiv (A + B + C) (3 * D)))"

subsection \<open>DrowsinessDetector\<close>

definition EAR_THRESHOLD :: real where "EAR_THRESHOLD = 25 / 100"
definition EAR_CONSEC_FRAMES :: int where "EAR_CONSEC_FRAMES = 20"
definition YAWN_THRESHOLD :: real where "YAWN_THRESHOLD = 6 / 10"

text \<open>
  The index ranges of the 68-point landmark model, as \<^verbatim>\<open>imutils.face_utils\<close>
  defines \<^verbatim>\<open>FACIAL_LANDMARKS_IDXS\<close>: left eye 42 to 48, right eye 36 to 42,
  mouth 48 to 68 (the end is excluded).
\<close>

definition L_START :: nat where "L_START = 42"
definition L_END :: nat where "L_END = 48"
definition R_START :: nat where "R_START = 36"
definition R_END :: nat where "R_END = 42"
definition M_START :: nat where "M_START = 48"
definition M_END :: nat where "M_END = 68"

text \<open>The slice \<open>xs[a:b]\<close> for non-negative bounds.\<close>

definition slice :: "'a list \<Rightarrow> nat \<Rightarrow> nat \<Rightarrow> 'a list" where
  "slice xs a b = take (b - a) (drop a xs)"

text \<open>
  The mutable attributes of a detector (\<^verbatim>\<open>start_time\<close> is never read again and is
  left out), and the status dictionary that \<^verbatim>\<open>process_frame\<close> returns.
\<close>

record detector =
  counter :: int
  blink_count :: int
  yawn_count :: int
  drowsy :: bool
  yawning :: bool

record status =
  face_detected :: bool
  st_ear :: fval
  st_mar :: fval
  st_blink_count :: int
  st_yawn_count :: int
  st_drowsy :: bool
  st_yawning :: bool
  risk_level :: string

definition init_detector :: detector where
  "init_detector =
     \<lparr>counter = 0, blink_count = 0, yawn_count = 0, drowsy = False, yawning = False\<rparr>"

definition init_status :: "detector \<Rightarrow> status" where
  "init_status d =
     \<lparr>face_detected = False, st_ear = Fin 0, st_mar = Fin 0,
      st_blink_count = blink_count d, st_yawn_count = yawn_count d,
      st_drowsy = False, st_yawning = False, risk_level = ''NORMAL''\<rparr>"

text \<open>
  A frame is given by what the face detector and the landmark predictor (both external)
  find in it: one array of landmark points for each detected face.
\<close>

type_synonym shape = "point list"
type_synonym frame = "shape list"

text \<open>The eye and mouth measurements of one face (the first half of the loop body).\<close>

definition face_geometry :: "shape \<Rightarrow> py_error + (fval \<times> fval)" where
  "face_geometry shape =
     (let left_eye = slice shape L_START L_END;
          right_eye = slice shape R_START R_END
      in case eye_aspect_ratio left_eye of Inl e \<Rightarrow> Inl e | Inr left_ear \<Rightarrow>
         case eye_aspect_ratio right_eye of Inl e \<Rightarrow> Inl e | Inr right_ear \<Rightarrow>
         let ear = fhalf (fadd left_ear right_ear);
             mouth = slice shape M_START M_END
         in case mouth_aspect_ratio mouth of Inl e \<Rightarrow> Inl e | Inr mar \<Rightarrow>
            Inr (ear, mar))"

text \<open>The drowsiness logic of the loop body.\<close>

definition drowsiness_logic :: "fval \<Rightarrow> detector \<times> status \<Rightarrow> detector \<times> status" where
  "drowsiness_logic ear ds =
     (let d = fst ds; st = snd ds
      in if flt ear EAR_THRESHOLD then
           (let d1 = d\<lparr>counter := counter d + 1\<rparr>
            in if EAR_CONSEC_FRAMES \<le> counter d1
               then (d1\<lparr>drowsy := True\<rparr>, st\<lparr>st_drowsy := True\<rparr>)
               else (d1, st))
         else
           (let (d1, st1) =
                  (if 3 \<le> counter d
                   then (d\<lparr>blink_count := blink_count d + 1\<rparr>,
                         st\<lparr>st_blink_count := blink_count d + 1\<rparr>)
                   else (d, st))
            in (d1\<lparr>counter := 0, drowsy := False\<rparr>, st1)))"

text \<open>The yawn logic of the loop body.\<close>

definition yawn_logic :: "fval \<Rightarrow> detector \<times> status \<Rightarrow> detector \<times> status" where
  "yawn_logic mar ds =
     (let d = fst ds; st = snd ds
      in if fgt mar YAWN_THRESHOLD then
           (let d1 = (if \<not> yawning d then d\<lparr>yawn_count := yawn_count d + 1\<rparr> else d)
            in (d1\<lparr>yawning := True\<rparr>, st\<lparr>st_yawning := True\<rparr>))
         else (d\<lparr>yawning := False\<rparr>, st))"

text \<open>One iteration of \<^verbatim>\<open>for rect in rects\<close>, once the measurements are there.\<close>

definition face_update :: "fval \<Rightarrow> fval \<Rightarrow> detector \<times> status \<Rightarrow> detector \<times> status" where
  "face_update ear mar ds =
     (let d = fst ds;
          st = (snd ds)\<lparr>face_detected := True, st_ear := fround ear 3, st_mar := fround mar 3\<rparr>
      in yawn_logic mar (drowsiness_logic ear (d, st)))"

text \<open>
  The loop over the detected faces. An exception leaves the loop; what the earlier faces
  wrote to the detector stays.
\<close>

fun process_faces :: "frame \<Rightarrow> detector \<times> status \<Rightarrow> detector \<times> (py_error + status)" where
  "process_faces [] ds = (fst ds, Inr (snd ds))"
| "process_faces (shape # rects) ds =
     (case face_geometry shape of
        Inl e \<Rightarrow> (fst ds, Inl e)
      | Inr (ear, mar) \<Rightarrow> process_faces rects (face_update ear mar ds))"

definition risk_of :: "status \<Rightarrow> status" where
  "risk_of st =
     (if st_drowsy st \<and> st_yawning st then st\<lparr>risk_level := ''CRITICAL''\<rparr>
      else if st_drowsy st \<or> 3 \<le> st_yawn_count st then st\<lparr>risk_level := ''WARNING''\<rparr>
      else st\<lparr>risk_level := ''NORMAL''\<rparr>)"

text \<open>
  \<^verbatim>\<open>process_frame\<close>: the new detector and the status, or the exception raised. The
  annotated image is not modelled.
\<close>

definition process_frame :: "detector \<Rightarrow> frame \<Rightarrow> detector \<times> (py_error + status)" where
  "process_frame d rects =
     (case process_faces rects (d, init_status d) of
        (d', Inl e) \<Rightarrow> (d', Inl e)
      | (d', Inr st) \<Rightarrow> (d', Inr (risk_of st)))"

text \<open>A sequence of calls on one detector: the detector after the last call.\<close>

fun run_frames :: "detector \<Rightarrow> frame list \<Rightarrow> detector" where
  "run_frames d [] = d"
| "run_frames d (f # fs) = run_frames (fst (process_frame d f)) fs"

subsection \<open>VitalsRiskClassifier: \<^verbatim>\<open>DriverHealthModel\<close>\<close>

definition RISK_LABELS :: "nat \<rightharpoonup> string" where
  "RISK_LABELS = [0 \<mapsto> ''NORMAL'', 1 \<mapsto> ''WARNING'', 2 \<mapsto> ''CRITICAL'']"

text \<open>
  The two fitted classifiers and the fitted scaler are external: each is a function on
  one row of features (the library applies it row by row to a batch).
\<close>

record health_model =
  rf_predict_proba :: "real list \<Rightarrow> real list"
  gb_predict_proba :: "real list \<Rightarrow> real list"
  scaler_transform :: "real list \<Rightarrow> real list"
  is_trained :: bool

text \<open>
  \<^verbatim>\<open>(rf_weight * rf_proba) + (gb_weight * gb_proba)\<close> on one row. Both classifiers are
  fitted on the same labels, so their rows have the same length; what numpy does with rows
  of different lengths is not modelled.
\<close>

definition combine :: "real \<Rightarrow> real list \<Rightarrow> real \<Rightarrow> real list \<Rightarrow> real list" where
  "combine rf_weight rf_row gb_weight gb_row =
     map2 (\<lambda>a b. rf_weight * a + gb_weight * b) rf_row gb_row"

text \<open>\<^verbatim>\<open>np.argmax\<close> of a row: the first index of a largest entry.\<close>

fun argmax :: "real list \<Rightarrow> nat" where
  "argmax [] = 0"
| "argmax [x] = 0"
| "argmax (x # y # ys) =
     (let j = argmax (y # ys) in if (y # ys) ! j \<le> x then 0 else Suc j)"

text \<open>\<^verbatim>\<open>max\<close> of a sequence that is not empty.\<close>

fun max_of :: "real list \<Rightarrow> real" where
  "max_of [] = 0"
| "max_of (x # xs) = fold max xs x"

text \<open>
  \<^verbatim>\<open>_fuse_predictions\<close> on a batch: one label for each row; \<^verbatim>\<open>np.argmax\<close> raises
  \<open>ValueError\<close> on rows without entries.
\<close>

definition fuse_predictions ::
    "real list list \<Rightarrow> real list list \<Rightarrow> real \<Rightarrow> real \<Rightarrow> py_error + nat list" where
  "fuse_predictions rf_proba gb_proba rf_weight gb_weight =
     (let combined = map2 (\<lambda>r g. combine rf_weight r gb_weight g) rf_proba gb_proba
      in if \<exists>row \<in> set combined. row = [] then Inl ValueError
         else Inr (map argmax combined))"

record prediction =
  risk_label :: int
  p_risk_level :: string
  confidence :: real
  p_heart_rate :: real
  p_hrv :: real
  p_spo2 :: real
  p_skin_temp :: real

definition predict ::
    "health_model \<Rightarrow> real \<Rightarrow> real \<Rightarrow> real \<Rightarrow> real \<Rightarrow> real \<Rightarrow> real \<Rightarrow> py_error + prediction" where
  "predict m heart_rate hrv spo2 skin_temp activity_level time_of_day_hr =
     (if \<not> is_trained m
      then Inl (RuntimeError ''Model not trained yet. Call train() first.'')
      else
        let features = [heart_rate, hrv, spo2, skin_temp, activity_level, time_of_day_hr];
            features_scaled = scaler_transform m features;
            rf_proba = rf_predict_proba m features_scaled;
            gb_proba = gb_predict_proba m features_scaled
        in case fuse_predictions [rf_proba] [gb_proba] (45 / 100) (55 / 100) of
             Inl e \<Rightarrow> Inl e
           | Inr labels \<Rightarrow>
               (let label = labels ! 0;
                    conf = max_of (combine (45 / 100) rf_proba (55 / 100) gb_proba)
                in case RISK_LABELS label of
                     None \<Rightarrow> Inl (KeyError ''risk label'')
                   | Some level \<Rightarrow>
                       Inr \<lparr>risk_label = int label, p_risk_level = level,
                            confidence = round_digits (conf * 100) 1,
                            p_heart_rate = heart_rate, p_hrv = hrv, p_spo2 = spo2,
                            p_skin_temp = skin_temp\<rparr>))"

subsection \<open>RiskAggregator: \<^verbatim>\<open>get_risk_level\<close>\<close>

text \<open>A lookup \<^verbatim>\<open>data[key]\<close>: a missing key raises \<open>KeyError\<close>.\<close>

definition lookup :: "(string \<rightharpoonup> 'v) \<Rightarrow> string \<Rightarrow> py_error + 'v" where
  "lookup data k = (case data k of None \<Rightarrow> Inl (KeyError k) | Some v \<Rightarrow> Inr v)"

definition get_risk_level ::
    "(string \<rightharpoonup> real) \<Rightarrow> real \<Rightarrow> real \<Rightarrow> real \<Rightarrow> py_error + string" where
  "get_risk_level data ear_thresh hr_critical spo2_warn =
     (case lookup data ''heart_rate'' of Inl e \<Rightarrow> Inl e | Inr hr \<Rightarrow>
      case lookup data ''spo2'' of Inl e \<Rightarrow> Inl e | Inr spo2 \<Rightarrow>
      case lookup data ''ear'' of Inl e \<Rightarrow> Inl e | Inr ear \<Rightarrow>
      case lookup data ''hrv'' of Inl e \<Rightarrow> Inl e | Inr hrv \<Rightarrow>
        if hr_critical < hr \<or> spo2 < spo2_warn - 3 \<or> ear < ear_thresh - 5 / 100 \<or> hrv < 15
        then Inr ''CRITICAL''
        else if hr_critical - 20 < hr \<or> spo2 < spo2_warn \<or> ear < ear_thresh
        then Inr ''WARNING''
        else (case lookup data ''yawn_count'' of Inl e \<Rightarrow> Inl e | Inr yawns \<Rightarrow>
                if 3 \<le> yawns then Inr ''WARNING'' else Inr ''NORMAL''))"

subsection \<open>AlertDispatcher: \<^verbatim>\<open>trigger_alert\<close>\<close>

datatype pyval = VBool bool | VStr string | VDict "(string \<times> string) list"

type_synonym pydict = "string \<rightharpoonup> pyval"

text \<open>\<^verbatim>\<open>d.get(key, default)\<close>\<close>

definition dict_get :: "('k \<rightharpoonup> 'v) \<Rightarrow> 'k \<Rightarrow> 'v \<Rightarrow> 'v" where
  "dict_get d k dflt = (case d k of None \<Rightarrow> dflt | Some v \<Rightarrow> v)"

definition ESC :: char where "ESC = CHR 0x1B"
definition NL :: char where "NL = CHR 0x0A"

definition ALERT_COLORS :: "string \<rightharpoonup> string" where
  "ALERT_COLORS =
     [''NORMAL'' \<mapsto> ESC # ''[92m'', ''WARNING'' \<mapsto> ESC # ''[93m'', ''CRITICAL'' \<mapsto> ESC # ''[91m'']"

definition RESET :: string where "RESET = ESC # ''[0m''"

definition COOLDOWN_SECONDS :: "string \<rightharpoonup> real" where
  "COOLDOWN_SECONDS = [''NORMAL'' \<mapsto> 5, ''WARNING'' \<mapsto> 10, ''CRITICAL'' \<mapsto> 3]"

text \<open>The texts of the messages, as the bytes of their UTF-8 encoding.\<close>

definition messages :: "string \<rightharpoonup> string" where
  "messages =
     [''NORMAL'' \<mapsto>
        [CHR 0xE2, CHR 0x9C, CHR 0x85]
        @ '' Driver status is NORMAL. All readings within safe range.'',
      ''WARNING'' \<mapsto>
        [CHR 0xE2, CHR 0x9A, CHR 0xA0, CHR 0xEF, CHR 0xB8, CHR 0x8F]
        @ ''  WARNING! Signs of fatigue or elevated heart rate detected.'',
      ''CRITICAL'' \<mapsto>
        [CHR 0xF0, CHR 0x9F, CHR 0x9A, CHR 0xA8]
        @ '' CRITICAL ALERT! Immediate danger '' @ [CHR 0xE2, CHR 0x80, CHR 0x94]
        @ '' pull over now!'']"

definition actions :: "string \<rightharpoonup> string" where
  "actions =
     [''NORMAL'' \<mapsto> ''Continue monitoring.'',
      ''WARNING'' \<mapsto> ''Recommend rest break in 15 minutes.'',
      ''CRITICAL'' \<mapsto> ''STOP VEHICLE IMMEDIATELY. Sound alarm.'']"

text \<open>
  \<^verbatim>\<open>_play_beep\<close>: the frequency and the duration in milliseconds of the tone it asks the
  sound library for, if any. Whatever the library raises is swallowed.
\<close>

definition play_beep :: "bool \<Rightarrow> string \<Rightarrow> (nat \<times> nat) option" where
  "play_beep SOUND_AVAILABLE level =
     (if \<not> SOUND_AVAILABLE then None
      else let freq = dict_get [''WARNING'' \<mapsto> 800, ''CRITICAL'' \<mapsto> 1200] level 0
           in if freq = 0 then None
              else Some (freq, if level = ''WARNING'' then 500 else 1000))"

text \<open>
  What a call does besides returning: the lines it prints, and the daemon thread it
  starts to run \<^verbatim>\<open>_play_beep\<close>.
\<close>

datatype effect = Print string | StartBeepThread string

text \<open>
  \<^verbatim>\<open>trigger_alert\<close>. The two readings of the clock, \<^verbatim>\<open>time.time()\<close> and the formatted
  \<^verbatim>\<open>time.strftime(...)\<close>, are arguments; the module's \<^verbatim>\<open>_last_alert_time\<close> is passed in
  and returned. The values of \<^verbatim>\<open>details\<close> are given as printed.
\<close>

definition trigger_alert ::
    "string \<Rightarrow> string \<Rightarrow> (string \<times> string) list option \<Rightarrow> real \<Rightarrow> string
     \<Rightarrow> (string \<rightharpoonup> real) \<Rightarrow> pydict \<times> (string \<rightharpoonup> real) \<times> effect list" where
  "trigger_alert level source details now stamp last_alert_time =
     (let cooldown = dict_get COOLDOWN_SECONDS level 5
      in if (case last_alert_time level of None \<Rightarrow> False | Some t \<Rightarrow> now - t < cooldown)
         then ([''suppressed'' \<mapsto> VBool True, ''risk_level'' \<mapsto> VStr level],
               last_alert_time, [])
         else
           let lat' = last_alert_time(level \<mapsto> now);
               message = dict_get messages level ''Unknown risk level'';
               action = dict_get actions level [];
               items = (case details of None \<Rightarrow> [] | Some kv \<Rightarrow> kv);
               alert = [''timestamp'' \<mapsto> VStr stamp,
                        ''risk_level'' \<mapsto> VStr level,
                        ''source'' \<mapsto> VStr source,
                        ''message'' \<mapsto> VStr message,
                        ''action'' \<mapsto> VStr action,
                        ''details'' \<mapsto> VDict items,
                        ''suppressed'' \<mapsto> VBool False];
               color = dict_get ALERT_COLORS level [];
               prints =
                 [Print (NL # color @ replicate 55 (CHR ''='')),
                  Print (''  ['' @ stamp @ ''] '' @ source @ '' ALERT''),
                  Print (''  RISK: '' @ level),
                  Print (''  '' @ message),
                  Print (''  ACTION: '' @ action)]
                 @ map (\<lambda>(k, v). Print (''  '' @ k @ '': '' @ v)) items
                 @ [Print (replicate 55 (CHR ''='') @ RESET @ [NL])];
               sound = (if level = ''WARNING'' \<or> level = ''CRITICAL''
                        then [StartBeepThread level] else [])
           in (alert, lat', prints @ sound))"

text \<open>The cooldown that a call applies to a level.\<close>

definition cooldown_of :: "string \<Rightarrow> real" where
  "cooldown_of level = dict_get COOLDOWN_SECONDS level 5"

text \<open>
  A sequence of calls: for each call its result, the \<^verbatim>\<open>_last_alert_time\<close> after it and
  its effects; and the \<^verbatim>\<open>_last_alert_time\<close> after the whole sequence.
\<close>

record call =
  c_level :: string
  c_source :: string
  c_details :: "(string \<times> string) list option"
  c_now :: real
  c_stamp :: string

definition trigger_call ::
    "call \<Rightarrow> (string \<rightharpoonup> real) \<Rightarrow> pydict \<times> (string \<rightharpoonup> real) \<times> effect list" where
  "trigger_call c lat =
     trigger_alert (c_level c) (c_source c) (c_details c) (c_now c) (c_stamp c) lat"

fun run_alerts ::
    "call list \<Rightarrow> (string \<rightharpoonup> real) \<Rightarrow> (pydict \<times> (string \<rightharpoonup> real) \<times> effect list) list" where
  "run_alerts [] lat = []"
| "run_alerts (c # cs) lat =
     (let r = trigger_call c lat in r # run_alerts cs (fst (snd r)))"

fun state_after :: "call list \<Rightarrow> (string \<rightharpoonup> real) \<Rightarrow> (string \<rightharpoonup> real)" where
  "state_after [] lat = lat"
| "state_after (c # cs) lat = state_after cs (fst (snd (trigger_call c lat)))"

text \<open>The dictionary that a suppressed call returns, and an example of a call.\<close>

definition suppressed_alert :: "string \<Rightarrow> pydict" where
  "suppressed_alert level = [''suppressed'' \<mapsto> VBool True, ''risk_level'' \<mapsto> VStr level]"

definition critical_at :: "real \<Rightarrow> call" where
  "critical_at t =
     \<lparr>c_level = ''CRITICAL'', c_source = ''FUSION'', c_details = None, c_now = t,
      c_stamp = ''2024-01-01 00:00:00''\<rparr>"

definition is_suppressed :: "pydict \<Rightarrow> bool" where
  "is_suppressed alert = (alert ''suppressed'' = Some (VBool True))"

subsection \<open>Frames and contours used as examples\<close>

text \<open>What a frame with exactly one face measures for the eyes, if the measuring succeeds.\<close>

definition single_face_ear :: "frame \<Rightarrow> fval option" where
  "single_face_ear f =
     (case f of
        [sh] \<Rightarrow> (case face_geometry sh of Inl e \<Rightarrow> None | Inr (ear, mar) \<Rightarrow> Some ear)
      | _ \<Rightarrow> None)"

definition eyes_closed :: "frame \<Rightarrow> bool" where
  "eyes_closed f =
     (case single_face_ear f of None \<Rightarrow> False | Some ear \<Rightarrow> flt ear EAR_THRESHOLD)"

definition eyes_open :: "frame \<Rightarrow> bool" where
  "eyes_open f =
     (case single_face_ear f of None \<Rightarrow> False | Some ear \<Rightarrow> \<not> flt ear EAR_THRESHOLD)"

text \<open>
  An eye contour of width 20 and opening \<open>2 * h\<close> (its ratio is \<open>h / 10\<close>), a mouth contour
  of width 10 and opening \<open>2 * h\<close> (its ratio is \<open>h / 5\<close>), and a face of 68 landmarks with
  these eyes and this mouth.
\<close>

definition eye_of_height :: "real \<Rightarrow> point list" where
  "eye_of_height h = [(0, 0), (5, h), (15, h), (20, 0), (15, - h), (5, - h)]"

definition mouth_of_height :: "real \<Rightarrow> point list" where
  "mouth_of_height h =
     replicate 12 (0, 0) @
     [(0, 0), (2, h), (5, h), (8, h), (10, 0), (8, - h), (5, - h), (2, - h)]"

definition face_of :: "real \<Rightarrow> real \<Rightarrow> shape" where
  "face_of eh mh =
     replicate 36 (0, 0) @ eye_of_height eh @ eye_of_height eh @ mouth_of_height mh"

text \<open>What a call of \<^verbatim>\<open>process_frame\<close> reports: the face flag and the risk level.\<close>

definition reported :: "detector \<times> (py_error + status) \<Rightarrow> (bool \<times> string) option" where
  "reported r =
     (case snd r of Inl e \<Rightarrow> None | Inr st \<Rightarrow> Some (face_detected st, risk_level st))"

subsection \<open>Tiers and levels, for comparing \<^verbatim>\<open>get_risk_level\<close> with an aggregation of two tiers\<close>

datatype tier = NORMAL | WARNING | CRITICAL

fun severity :: "tier \<Rightarrow> nat" where
  "severity NORMAL = 0"
| "severity WARNING = 1"
| "severity CRITICAL = 2"

fun tier_name :: "tier \<Rightarrow> string" where
  "tier_name NORMAL = ''NORMAL''"
| "tier_name WARNING = ''WARNING''"
| "tier_name CRITICAL = ''CRITICAL''"

definition worse :: "tier \<Rightarrow> tier \<Rightarrow> tier" where
  "worse a b = (if severity a \<le> severity b then b else a)"

text \<open>
  The aggregation as the specification words it: the worse of the tiers that are given,
  and no result (\<open>NoSignal\<close>) when none is given.
\<close>

fun aggregate_spec :: "tier option \<Rightarrow> tier option \<Rightarrow> tier option" where
  "aggregate_spec None None = None"
| "aggregate_spec (Some a) None = Some a"
| "aggregate_spec None (Some b) = Some b"
| "aggregate_spec (Some a) (Some b) = Some (worse a b)"

text \<open>The severity of a level given by its name, and the worse of two such levels.\<close>

definition level_rank :: "string \<Rightarrow> nat" where
  "level_rank l = (if l = ''CRITICAL'' then 2 else if l = ''WARNING'' then 1 else 0)"

definition worse_level :: "string \<Rightarrow> string \<Rightarrow> string" where
  "worse_level a b = (if level_rank a \<le> level_rank b then b else a)"

text \<open>
  Readings in which one stream gives no reason for a warning: its readings are put on the
  thresholds themselves, and the readings of the other stream are kept.
\<close>

definition calm_vitals :: "(string \<rightharpoonup> real) \<Rightarrow> real \<Rightarrow> real \<Rightarrow> (string \<rightharpoonup> real)" where
  "calm_vitals data hr_critical spo2_warn =
     data(''heart_rate'' \<mapsto> hr_critical - 20, ''spo2'' \<mapsto> spo2_warn, ''hrv'' \<mapsto> 15)"

definition calm_geometry :: "(string \<rightharpoonup> real) \<Rightarrow> real \<Rightarrow> (string \<rightharpoonup> real)" where
  "calm_geometry data ear_thresh = data(''ear'' \<mapsto> ear_thresh, ''yawn_count'' \<mapsto> 0)"

text \<open>
  Readings used as examples, with the keys of \<^verbatim>\<open>simulate_sensor_data\<close>: a driver with a
  racing heart and half-closed eyes, and readings from the ranges of the warning scenario.
\<close>

definition tired_and_racing :: "string \<rightharpoonup> real" where
  "tired_and_racing =
     [''heart_rate'' \<mapsto> 150, ''hrv'' \<mapsto> 40, ''spo2'' \<mapsto> 98, ''skin_temp'' \<mapsto> 36,
      ''ear'' \<mapsto> 23 / 100, ''blink_rate'' \<mapsto> 10, ''yawn_count'' \<mapsto> 0, ''activity'' \<mapsto> 0]"

definition warning_readings :: "string \<rightharpoonup> real" where
  "warning_readings =
     [''heart_rate'' \<mapsto> 110, ''hrv'' \<mapsto> 25, ''spo2'' \<mapsto> 96, ''skin_temp'' \<mapsto> 365 / 10,
      ''ear'' \<mapsto> 24 / 100, ''blink_rate'' \<mapsto> 8, ''yawn_count'' \<mapsto> 2, ''activity'' \<mapsto> 0]"

text \<open>
  What a call of \<^verbatim>\<open>process_frame\<close> reports of the geometry: the face flag, the eye ratio,
  the yawn count and the risk level.
\<close>

definition reported_readings ::
    "detector \<times> (py_error + status) \<Rightarrow> (bool \<times> fval \<times> int \<times> string) option" where
  "reported_readings r =
     (case snd r of
        Inl e \<Rightarrow> None
      | Inr st \<Rightarrow> Some (face_detected st, st_ear st, st_yawn_count st, risk_level st))"

text \<open>A trained model whose classifiers answer with fixed probabilities.\<close>

definition fixed_model :: "real list \<Rightarrow> real list \<Rightarrow> health_model" where
  "fixed_model pa pb =
     \<lparr>rf_predict_proba = (\<lambda>x. pa), gb_predict_proba = (\<lambda>x. pb),
      scaler_transform = (\<lambda>x. x), is_trained = True\<rparr>"

section \<open>Properties\<close>

subsection \<open>Geometry\<close>

lemma euclidean_nonneg: "0 \<le> euclidean p q"
  by (simp add: euclidean_def)

lemma euclidean_same: "euclidean p p = 0"
  by (simp add: euclidean_def)

lemma euclidean_horizontal: "euclidean (x1, y) (x2, y) = \<bar>x1 - x2\<bar>"
  by (simp add: euclidean_def)

lemma euclidean_vertical: "euclidean (x, y1) (x, y2) = \<bar>y1 - y2\<bar>"
  by (simp add: euclidean_def)

lemma eye_aspect_ratio_value:
  "6 \<le> length eye \<Longrightarrow>
   eye_aspect_ratio eye =
     Inr (fdiv (euclidean (eye ! 1) (eye ! 5) + euclidean (eye ! 2) (eye ! 4))
               (2 * euclidean (eye ! 0) (eye ! 3)))"
  by (auto simp: eye_aspect_ratio_def dist_at_def item_def)

lemma mouth_aspect_ratio_value:
  "20 \<le> length mouth \<Longrightarrow>
   mouth_aspect_ratio mouth =
     Inr (fdiv (euclidean (mouth ! 13) (mouth ! 19) + euclidean (mouth ! 14) (mouth ! 18)
                + euclidean (mouth ! 15) (mouth ! 17))
               (3 * euclidean (mouth ! 12) (mouth ! 16)))"
  by (auto simp: mouth_aspect_ratio_def dist_at_def item_def)

text \<open>
  Claim C8. For an eye contour of six points whose horizontal width \<open>dist(p0, p3)\<close> is not
  zero, \<^verbatim>\<open>eye_aspect_ratio\<close> returns \<open>(dist(p1, p5) + dist(p2, p4)) / (2 * dist(p0, p3))\<close>;
  this value is not negative, and it is 0 when \<open>p1 = p5\<close> and \<open>p2 = p4\<close>.
\<close>

theorem ear_formula:
  assumes "length eye = 6" and "euclidean (eye ! 0) (eye ! 3) \<noteq> 0"
  shows "eye_aspect_ratio eye =
           Inr (Fin ((euclidean (eye ! 1) (eye ! 5) + euclidean (eye ! 2) (eye ! 4))
                     / (2 * euclidean (eye ! 0) (eye ! 3))))
         \<and> 0 \<le> (euclidean (eye ! 1) (eye ! 5) + euclidean (eye ! 2) (eye ! 4))
                 / (2 * euclidean (eye ! 0) (eye ! 3))
         \<and> (eye ! 1 = eye ! 5 \<and> eye ! 2 = eye ! 4 \<longrightarrow> eye_aspect_ratio eye = Inr (Fin 0))"
  using assms
  by (simp add: eye_aspect_ratio_value fdiv_def euclidean_nonneg euclidean_same)

theorem ear_formula_witness:
  "length [(0, 0), (5, 0), (15, 0), (20, 0), (15, 0), (5, 0) :: point] = 6
   \<and> euclidean ([(0, 0), (5, 0), (15, 0), (20, 0), (15, 0), (5, 0)] ! 0)
                ([(0, 0), (5, 0), (15, 0), (20, 0), (15, 0), (5, 0)] ! 3) \<noteq> 0
   \<and> [(0, 0), (5, 0), (15, 0), (20, 0), (15, 0), (5, 0) :: point] ! 1
     = [(0, 0), (5, 0), (15, 0), (20, 0), (15, 0), (5, 0)] ! 5
   \<and> [(0, 0), (5, 0), (15, 0), (20, 0), (15, 0), (5, 0) :: point] ! 2
     = [(0, 0), (5, 0), (15, 0), (20, 0), (15, 0), (5, 0)] ! 4
   \<and> eye_aspect_ratio [(0, 0), (5, 0), (15, 0), (20, 0), (15, 0), (5, 0)] = Inr (Fin 0)"
  using ear_formula [of "[(0, 0), (5, 0), (15, 0), (20, 0), (15, 0), (5, 0)]"]
  by (auto simp: euclidean_horizontal)

text \<open>
  Claim C6, as the code has it. A contour whose horizontal distance is zero does not make
  \<^verbatim>\<open>eye_aspect_ratio\<close> or \<^verbatim>\<open>mouth_aspect_ratio\<close> fail: the result is infinity when the sum
  of the vertical distances is positive and NaN when it is zero. With a horizontal distance
  that is not zero the result is the finite ratio.
\<close>

theorem zero_width_not_guarded:
  "(6 \<le> length eye \<and> euclidean (eye ! 0) (eye ! 3) = 0 \<longrightarrow>
      eye_aspect_ratio eye =
        Inr (if 0 < euclidean (eye ! 1) (eye ! 5) + euclidean (eye ! 2) (eye ! 4)
             then PInf else NaN))
   \<and> (20 \<le> length mouth \<and> euclidean (mouth ! 12) (mouth ! 16) = 0 \<longrightarrow>
      mouth_aspect_ratio mouth =
        Inr (if 0 < euclidean (mouth ! 13) (mouth ! 19) + euclidean (mouth ! 14) (mouth ! 18)
                    + euclidean (mouth ! 15) (mouth ! 17)
             then PInf else NaN))
   \<and> (6 \<le> length eye \<and> euclidean (eye ! 0) (eye ! 3) \<noteq> 0 \<longrightarrow>
      eye_aspect_ratio eye =
        Inr (Fin ((euclidean (eye ! 1) (eye ! 5) + euclidean (eye ! 2) (eye ! 4))
                  / (2 * euclidean (eye ! 0) (eye ! 3)))))
   \<and> (20 \<le> length mouth \<and> euclidean (mouth ! 12) (mouth ! 16) \<noteq> 0 \<longrightarrow>
      mouth_aspect_ratio mouth =
        Inr (Fin ((euclidean (mouth ! 13) (mouth ! 19) + euclidean (mouth ! 14) (mouth ! 18)
                   + euclidean (mouth ! 15) (mouth ! 17))
                  / (3 * euclidean (mouth ! 12) (mouth ! 16)))))"
proof -
  have z: "0 \<le> a \<Longrightarrow> fdiv a (k * 0) = (if 0 < a then PInf else NaN)" for a k :: real
    by (simp add: fdiv_def)
  have e: "0 \<le> euclidean (eye ! 1) (eye ! 5) + euclidean (eye ! 2) (eye ! 4)"
    by (simp add: euclidean_nonneg)
  have m: "0 \<le> euclidean (mouth ! 13) (mouth ! 19) + euclidean (mouth ! 14) (mouth ! 18)
                + euclidean (mouth ! 15) (mouth ! 17)"
    by (simp add: euclidean_nonneg)
  have "euclidean (eye ! 0) (eye ! 3) = 0 \<Longrightarrow>
        fdiv (euclidean (eye ! 1) (eye ! 5) + euclidean (eye ! 2) (eye ! 4))
             (2 * euclidean (eye ! 0) (eye ! 3))
        = (if 0 < euclidean (eye ! 1) (eye ! 5) + euclidean (eye ! 2) (eye ! 4)
           then PInf else NaN)"
    using z [OF e, of 2] by simp
  moreover have "euclidean (mouth ! 12) (mouth ! 16) = 0 \<Longrightarrow>
        fdiv (euclidean (mouth ! 13) (mouth ! 19) + euclidean (mouth ! 14) (mouth ! 18)
                + euclidean (mouth ! 15) (mouth ! 17))
             (3 * euclidean (mouth ! 12) (mouth ! 16))
        = (if 0 < euclidean (mouth ! 13) (mouth ! 19) + euclidean (mouth ! 14) (mouth ! 18)
                + euclidean (mouth ! 15) (mouth ! 17)
           then PInf else NaN)"
    using z [OF m, of 3] by simp
  moreover have "b \<noteq> 0 \<Longrightarrow> fdiv a (k * b) = Fin (a / (k * b))" if "k \<noteq> 0" for a b k :: real
    using that by (simp add: fdiv_def)
  ultimately show ?thesis
    by (simp add: eye_aspect_ratio_value mouth_aspect_ratio_value)
qed

theorem zero_width_not_guarded_witness:
  "6 \<le> length [(5, 0), (5, 3), (5, 3), (5, 0), (5, -3), (5, -3) :: point]
   \<and> euclidean ([(5, 0), (5, 3), (5, 3), (5, 0), (5, -3), (5, -3)] ! 0)
                ([(5, 0), (5, 3), (5, 3), (5, 0), (5, -3), (5, -3)] ! 3) = 0
   \<and> eye_aspect_ratio [(5, 0), (5, 3), (5, 3), (5, 0), (5, -3), (5, -3)] = Inr PInf
   \<and> 20 \<le> length (replicate 20 (0, 0) :: point list)
   \<and> euclidean (replicate 20 (0, 0) ! 12) (replicate 20 (0, 0) ! 16) = 0
   \<and> mouth_aspect_ratio (replicate 20 (0, 0)) = Inr NaN
   \<and> 6 \<le> length (eye_of_height 3)
   \<and> euclidean (eye_of_height 3 ! 0) (eye_of_height 3 ! 3) \<noteq> 0
   \<and> eye_aspect_ratio (eye_of_height 3) = Inr (Fin (3 / 10))
   \<and> 20 \<le> length (mouth_of_height 4)
   \<and> euclidean (mouth_of_height 4 ! 12) (mouth_of_height 4 ! 16) \<noteq> 0
   \<and> mouth_aspect_ratio (mouth_of_height 4) = Inr (Fin (4 / 5))"
  using zero_width_not_guarded
          [of "[(5, 0), (5, 3), (5, 3), (5, 0), (5, -3), (5, -3)]" "replicate 20 (0, 0)"]
        zero_width_not_guarded [of "eye_of_height 3" "mouth_of_height 4"]
  by (simp add: euclidean_horizontal euclidean_vertical euclidean_same eye_of_height_def
      mouth_of_height_def nth_append)

text \<open>
  Against claim C6 as stated: an eye contour with \<open>p0 = p3\<close> yields infinity, not an error.
\<close>

theorem zero_width_counterexample:
  "eye_aspect_ratio [(5, 0), (5, 3), (5, 3), (5, 0), (5, -3), (5, -3)] = Inr PInf"
  by (simp add: eye_aspect_ratio_def dist_at_def item_def fdiv_def
      euclidean_horizontal euclidean_vertical)

subsection \<open>Drowsiness detector\<close>

lemma slice_face_of:
  "slice (face_of eh mh) L_START L_END = eye_of_height eh"
  "slice (face_of eh mh) R_START R_END = eye_of_height eh"
  "slice (face_of eh mh) M_START M_END = mouth_of_height mh"
  by (simp_all add: slice_def face_of_def L_START_def L_END_def R_START_def R_END_def
      M_START_def M_END_def eye_of_height_def mouth_of_height_def)

lemma ear_eye_of_height: "0 \<le> h \<Longrightarrow> eye_aspect_ratio (eye_of_height h) = Inr (Fin (h / 10))"
  by (simp add: eye_aspect_ratio_def dist_at_def item_def eye_of_height_def
      euclidean_horizontal euclidean_vertical fdiv_def)

lemma mar_mouth_of_height:
  "0 \<le> h \<Longrightarrow> mouth_aspect_ratio (mouth_of_height h) = Inr (Fin (h / 5))"
  by (simp add: mouth_aspect_ratio_def dist_at_def item_def mouth_of_height_def
      euclidean_horizontal euclidean_vertical fdiv_def nth_append)

lemma face_geometry_face_of:
  "0 \<le> eh \<Longrightarrow> 0 \<le> mh \<Longrightarrow> face_geometry (face_of eh mh) = Inr (Fin (eh / 10), Fin (mh / 5))"
  by (simp add: face_geometry_def slice_face_of ear_eye_of_height mar_mouth_of_height)

lemma single_face_ear_face_of:
  "0 \<le> eh \<Longrightarrow> 0 \<le> mh \<Longrightarrow> single_face_ear [face_of eh mh] = Some (Fin (eh / 10))"
  by (simp add: single_face_ear_def face_geometry_face_of)

lemma process_frame_single:
  "face_geometry sh = Inr (ear, mar) \<Longrightarrow>
   process_frame d [sh] =
     (fst (face_update ear mar (d, init_status d)),
      Inr (risk_of (snd (face_update ear mar (d, init_status d)))))"
  by (simp add: process_frame_def split: prod.splits)

lemma eyes_closedE:
  assumes "eyes_closed f"
  obtains sh ear mar where "f = [sh]" "face_geometry sh = Inr (ear, mar)" "flt ear EAR_THRESHOLD"
  using assms
  by (auto simp: eyes_closed_def single_face_ear_def split: list.splits sum.splits option.splits)

lemma eyes_openE:
  assumes "eyes_open f"
  obtains sh ear mar where "f = [sh]" "face_geometry sh = Inr (ear, mar)" "\<not> flt ear EAR_THRESHOLD"
  using assms
  by (auto simp: eyes_open_def single_face_ear_def split: list.splits sum.splits option.splits)

lemma face_update_closed:
  "flt ear EAR_THRESHOLD \<Longrightarrow>
   counter (fst (face_update ear mar (d, st))) = counter d + 1 \<and>
   blink_count (fst (face_update ear mar (d, st))) = blink_count d \<and>
   drowsy (fst (face_update ear mar (d, st))) = (drowsy d \<or> EAR_CONSEC_FRAMES \<le> counter d + 1)"
  by (simp add: face_update_def drowsiness_logic_def yawn_logic_def Let_def)

lemma face_update_open:
  "\<not> flt ear EAR_THRESHOLD \<Longrightarrow>
   counter (fst (face_update ear mar (d, st))) = 0 \<and>
   blink_count (fst (face_update ear mar (d, st))) = blink_count d + (if 3 \<le> counter d then 1 else 0) \<and>
   \<not> drowsy (fst (face_update ear mar (d, st)))"
  by (simp add: face_update_def drowsiness_logic_def yawn_logic_def Let_def)

lemma closed_step:
  assumes "eyes_closed f"
  shows "counter (fst (process_frame d f)) = counter d + 1"
    and "blink_count (fst (process_frame d f)) = blink_count d"
    and "drowsy (fst (process_frame d f)) = (drowsy d \<or> EAR_CONSEC_FRAMES \<le> counter d + 1)"
  using assms face_update_closed
  by (auto elim!: eyes_closedE simp: process_frame_single)

lemma open_step:
  assumes "eyes_open f"
  shows "counter (fst (process_frame d f)) = 0"
    and "blink_count (fst (process_frame d f)) = blink_count d + (if 3 \<le> counter d then 1 else 0)"
    and "\<not> drowsy (fst (process_frame d f))"
  using assms face_update_open
  by (auto elim!: eyes_openE simp: process_frame_single)

lemma run_frames_append: "run_frames d (fs @ gs) = run_frames (run_frames d fs) gs"
  by (induction fs arbitrary: d) simp_all

lemma closed_run:
  "\<forall>f \<in> set fs. eyes_closed f \<Longrightarrow>
   counter (run_frames d fs) = counter d + int (length fs) \<and>
   blink_count (run_frames d fs) = blink_count d \<and>
   drowsy (run_frames d fs) = (drowsy d \<or> (fs \<noteq> [] \<and> EAR_CONSEC_FRAMES \<le> counter d + int (length fs)))"
proof (induction fs arbitrary: d)
  case Nil
  then show ?case by simp
next
  case (Cons f fs)
  then have f: "eyes_closed f" and fs: "\<forall>g \<in> set fs. eyes_closed g" by simp_all
  show ?case
    using Cons.IH [OF fs, of "fst (process_frame d f)"] closed_step [OF f, of d]
    by (auto simp: EAR_CONSEC_FRAMES_def)
qed


lemma eyes_closed_example: "eyes_closed [face_of 1 1]"
  by (simp add: eyes_closed_def single_face_ear_face_of EAR_THRESHOLD_def)

lemma eyes_open_example: "eyes_open [face_of 3 1]"
  by (simp add: eyes_open_def single_face_ear_face_of EAR_THRESHOLD_def)




lemma process_faces_snoc:
  "process_faces (rects @ [sh]) ds =
     (case process_faces rects ds of
        (d', Inl e) \<Rightarrow> (d', Inl e)
      | (d', Inr st) \<Rightarrow> process_faces [sh] (d', st))"
proof (induction rects arbitrary: ds)
  case Nil
  then show ?case by (cases ds) (simp split: sum.splits)
next
  case (Cons a rects)
  show ?case
  proof (cases "face_geometry a")
    case (Inl e)
    then show ?thesis by simp
  next
    case (Inr g)
    obtain ear mar where "g = (ear, mar)" by (cases g)
    with Inr Cons.IH [of "face_update ear mar ds"] show ?thesis by simp
  qed
qed

lemma process_frame_snoc:
  assumes "\<not> isl (snd (process_frame d rects))" and "face_geometry sh = Inr (ear, mar)"
  shows "\<exists>st. fst (process_frame d (rects @ [sh]))
              = fst (face_update ear mar (fst (process_frame d rects), st))"
proof -
  obtain d' r where p: "process_faces rects (d, init_status d) = (d', r)"
    by (cases "process_faces rects (d, init_status d)")
  with assms(1) obtain st where r: "r = Inr st"
    by (cases r) (simp_all add: process_frame_def)
  have "fst (process_frame d rects) = d'"
    using p r by (simp add: process_frame_def)
  moreover have "fst (process_frame d (rects @ [sh])) = fst (face_update ear mar (d', st))"
    using p r assms(2) by (simp add: process_frame_def process_faces_snoc split: prod.splits)
  ultimately show ?thesis by auto
qed

lemma face_step_closed:
  assumes "\<not> isl (snd (process_frame d rects))" and "face_geometry sh = Inr (ear, mar)"
    and "flt ear EAR_THRESHOLD"
  shows "counter (fst (process_frame d (rects @ [sh]))) = counter (fst (process_frame d rects)) + 1
    \<and> drowsy (fst (process_frame d (rects @ [sh])))
      = (drowsy (fst (process_frame d rects))
         \<or> EAR_CONSEC_FRAMES \<le> counter (fst (process_frame d rects)) + 1)"
proof -
  from process_frame_snoc [OF assms(1,2)] obtain st where
    "fst (process_frame d (rects @ [sh]))
       = fst (face_update ear mar (fst (process_frame d rects), st))" ..
  with face_update_closed [OF assms(3), of mar "fst (process_frame d rects)" st]
  show ?thesis by simp
qed

lemma face_step_open:
  assumes "\<not> isl (snd (process_frame d rects))" and "face_geometry sh = Inr (ear, mar)"
    and "\<not> flt ear EAR_THRESHOLD"
  shows "counter (fst (process_frame d (rects @ [sh]))) = 0
    \<and> \<not> drowsy (fst (process_frame d (rects @ [sh])))"
proof -
  from process_frame_snoc [OF assms(1,2)] obtain st where
    "fst (process_frame d (rects @ [sh]))
       = fst (face_update ear mar (fst (process_frame d rects), st))" ..
  with face_update_open [OF assms(3), of mar "fst (process_frame d rects)" st]
  show ?thesis by simp
qed

text \<open>
  Claim C7, as the code has it. The update runs once for each detected face: a face whose
  eye ratio is below the threshold adds one to the run counter and sets \<^verbatim>\<open>drowsy\<close> once the
  counter reaches \<^verbatim>\<open>EAR_CONSEC_FRAMES\<close>; a face whose eye ratio is not below it resets the
  counter to 0 and \<^verbatim>\<open>drowsy\<close> to false. For frames with exactly one face this is once for
  each frame: from a new detector, after a run of such closed-eye frames \<^verbatim>\<open>drowsy\<close> holds
  exactly when the run has at least 20 frames, and it is false again after the open-eye
  frame that ends the run.
\<close>

theorem drowsy_update_per_face:
  "(\<not> isl (snd (process_frame d rects)) \<and> face_geometry sh = Inr (ear, mar)
      \<and> flt ear EAR_THRESHOLD \<longrightarrow>
      counter (fst (process_frame d (rects @ [sh])))
        = counter (fst (process_frame d rects)) + 1
      \<and> drowsy (fst (process_frame d (rects @ [sh])))
        = (drowsy (fst (process_frame d rects))
           \<or> EAR_CONSEC_FRAMES \<le> counter (fst (process_frame d rects)) + 1))
   \<and> (\<not> isl (snd (process_frame d rects)) \<and> face_geometry sh = Inr (ear, mar)
      \<and> \<not> flt ear EAR_THRESHOLD \<longrightarrow>
      counter (fst (process_frame d (rects @ [sh]))) = 0
      \<and> \<not> drowsy (fst (process_frame d (rects @ [sh]))))
   \<and> (eyes_closed f \<longrightarrow>
      counter (fst (process_frame d f)) = counter d + 1
      \<and> drowsy (fst (process_frame d f)) = (drowsy d \<or> EAR_CONSEC_FRAMES \<le> counter d + 1))
   \<and> (eyes_open f \<longrightarrow>
      counter (fst (process_frame d f)) = 0 \<and> \<not> drowsy (fst (process_frame d f)))
   \<and> ((\<forall>g \<in> set fs. eyes_closed g) \<longrightarrow>
      counter (run_frames init_detector fs) = int (length fs)
      \<and> drowsy (run_frames init_detector fs) = (EAR_CONSEC_FRAMES \<le> int (length fs)))
   \<and> ((\<forall>g \<in> set fs. eyes_closed g) \<and> eyes_open f \<longrightarrow>
      \<not> drowsy (run_frames init_detector (fs @ [f])))"
proof -
  have "(\<forall>g \<in> set fs. eyes_closed g) \<Longrightarrow>
      counter (run_frames init_detector fs) = int (length fs)
      \<and> drowsy (run_frames init_detector fs) = (EAR_CONSEC_FRAMES \<le> int (length fs))"
    using closed_run [of fs init_detector]
    by (auto simp: init_detector_def EAR_CONSEC_FRAMES_def)
  moreover have "eyes_open f \<Longrightarrow> \<not> drowsy (run_frames init_detector (fs @ [f]))"
    using open_step(3) [of f "run_frames init_detector fs"] by (simp add: run_frames_append)
  ultimately show ?thesis
    using closed_step(1,3) [of f d] open_step(1,3) [of f d]
      face_step_closed [of d rects sh ear mar] face_step_open [of d rects sh ear mar]
    by blast
qed

theorem drowsy_update_per_face_witness:
  "\<not> isl (snd (process_frame init_detector [face_of 3 1]))
   \<and> face_geometry (face_of 1 1) = Inr (Fin (1 / 10), Fin (1 / 5))
   \<and> flt (Fin (1 / 10)) EAR_THRESHOLD
   \<and> counter (fst (process_frame init_detector ([face_of 3 1] @ [face_of 1 1])))
     = counter (fst (process_frame init_detector [face_of 3 1])) + 1
   \<and> \<not> isl (snd (process_frame init_detector [face_of 1 1]))
   \<and> face_geometry (face_of 3 1) = Inr (Fin (3 / 10), Fin (1 / 5))
   \<and> \<not> flt (Fin (3 / 10)) EAR_THRESHOLD
   \<and> counter (fst (process_frame init_detector ([face_of 1 1] @ [face_of 3 1]))) = 0
   \<and> single_face_ear [face_of 1 1] = Some (Fin (1 / 10))
   \<and> single_face_ear [face_of 3 1] = Some (Fin (3 / 10))
   \<and> eyes_closed [face_of 1 1]
   \<and> eyes_open [face_of 3 1]
   \<and> list_all eyes_closed (replicate 19 [face_of 1 1])
   \<and> list_all eyes_closed (replicate 20 [face_of 1 1])
   \<and> \<not> drowsy (run_frames init_detector (replicate 19 [face_of 1 1]))
   \<and> drowsy (run_frames init_detector (replicate 20 [face_of 1 1]))
   \<and> \<not> drowsy (run_frames init_detector (replicate 20 [face_of 1 1] @ [[face_of 3 1]]))
   \<and> counter (fst (process_frame init_detector [face_of 1 1])) = 1
   \<and> counter (fst (process_frame (run_frames init_detector (replicate 20 [face_of 1 1]))
                                   [face_of 3 1])) = 0"
proof -
  have g1: "face_geometry (face_of 1 1) = Inr (Fin (1 / 10), Fin (1 / 5))"
    and g3: "face_geometry (face_of 3 1) = Inr (Fin (3 / 10), Fin (1 / 5))"
    using face_geometry_face_of [of 1 1] face_geometry_face_of [of 3 1] by simp_all
  have ok3: "\<not> isl (snd (process_frame init_detector [face_of 3 1]))"
    and ok1: "\<not> isl (snd (process_frame init_detector [face_of 1 1]))"
    by (simp_all add: process_frame_single g1 g3)
  have c: "flt (Fin (1 / 10)) EAR_THRESHOLD" and o: "\<not> flt (Fin (3 / 10)) EAR_THRESHOLD"
    by (simp_all add: EAR_THRESHOLD_def)
  note a = drowsy_update_per_face
      [where d = init_detector and rects = "[face_of 3 1]" and sh = "face_of 1 1"
         and ear = "Fin (1 / 10)" and mar = "Fin (1 / 5)" and f = "[face_of 1 1]"
         and fs = "replicate 19 [face_of 1 1]"]
  note b = drowsy_update_per_face
      [where d = "run_frames init_detector (replicate 20 [face_of 1 1])"
         and f = "[face_of 3 1]" and fs = "replicate 20 [face_of 1 1]"]
  note e = drowsy_update_per_face
      [where d = init_detector and rects = "[face_of 1 1]" and sh = "face_of 3 1"
         and ear = "Fin (3 / 10)" and mar = "Fin (1 / 5)"]
  have s1: "counter (fst (process_frame init_detector ([face_of 3 1] @ [face_of 1 1])))
            = counter (fst (process_frame init_detector [face_of 3 1])) + 1"
    using a ok3 g1 c by blast
  have s2: "counter (fst (process_frame init_detector ([face_of 1 1] @ [face_of 3 1]))) = 0"
    using e ok1 g3 o by blast
  have rest: "\<not> drowsy (run_frames init_detector (replicate 19 [face_of 1 1]))
   \<and> drowsy (run_frames init_detector (replicate 20 [face_of 1 1]))
   \<and> \<not> drowsy (run_frames init_detector (replicate 20 [face_of 1 1] @ [[face_of 3 1]]))
   \<and> counter (fst (process_frame init_detector [face_of 1 1])) = 1
   \<and> counter (fst (process_frame (run_frames init_detector (replicate 20 [face_of 1 1]))
                                   [face_of 3 1])) = 0"
    using a b eyes_closed_example eyes_open_example
    by (simp add: init_detector_def EAR_CONSEC_FRAMES_def)
  show ?thesis
    using g1 g3 ok1 ok3 c o s1 s2 rest eyes_closed_example eyes_open_example
    by (simp add: single_face_ear_face_of list_all_iff)
qed

lemma two_faces_step:
  assumes "d = init_detector
           \<or> d = \<lparr>counter = 1, blink_count = 0, yawn_count = 0, drowsy = False, yawning = False\<rparr>"
  shows "process_frame d [face_of 3 1, face_of 1 1] =
     (\<lparr>counter = 1, blink_count = 0, yawn_count = 0, drowsy = False, yawning = False\<rparr>,
      Inr \<lparr>face_detected = True, st_ear = Fin (1 / 10), st_mar = Fin (1 / 5),
           st_blink_count = 0, st_yawn_count = 0, st_drowsy = False, st_yawning = False,
           risk_level = ''NORMAL''\<rparr>)"
  using assms
  by (auto simp: process_frame_def face_geometry_face_of face_update_def drowsiness_logic_def
      yawn_logic_def init_detector_def init_status_def risk_of_def EAR_THRESHOLD_def
      YAWN_THRESHOLD_def EAR_CONSEC_FRAMES_def round_digits_def round_half_even_def)

lemma two_faces_run:
  "run_frames init_detector (replicate (Suc n) [face_of 3 1, face_of 1 1])
   = \<lparr>counter = 1, blink_count = 0, yawn_count = 0, drowsy = False, yawning = False\<rparr>"
proof (induction n)
  case 0
  then show ?case using two_faces_step [of init_detector] by simp
next
  case (Suc n)
  have "replicate (Suc (Suc n)) [face_of 3 1, face_of 1 1]
        = replicate (Suc n) [face_of 3 1, face_of 1 1] @ [[face_of 3 1, face_of 1 1]]"
    by (simp add: replicate_append_same)
  then show ?case
    using Suc two_faces_step
            [of "\<lparr>counter = 1, blink_count = 0, yawn_count = 0, drowsy = False, yawning = False\<rparr>"]
    by (simp only: run_frames_append) simp
qed

text \<open>
  Against claim C7 as stated: 20 consecutive frames with two faces each, the first with open
  eyes and the second with closed eyes, all report a face and the eye ratio 0.10; the
  counter stays at 1 and \<^verbatim>\<open>drowsy\<close> stays false.
\<close>

theorem two_faces_never_drowsy_counterexample:
  "reported_readings (process_frame init_detector [face_of 3 1, face_of 1 1])
     = Some (True, Fin (1 / 10), 0, ''NORMAL'')
   \<and> reported_readings
       (process_frame (run_frames init_detector (replicate 19 [face_of 3 1, face_of 1 1]))
          [face_of 3 1, face_of 1 1])
     = Some (True, Fin (1 / 10), 0, ''NORMAL'')
   \<and> counter (run_frames init_detector (replicate 20 [face_of 3 1, face_of 1 1])) = 1
   \<and> \<not> drowsy (run_frames init_detector (replicate 20 [face_of 3 1, face_of 1 1]))"
proof -
  have n19: "(19::nat) = Suc 18" and n20: "(20::nat) = Suc 19" by simp_all
  show ?thesis
    unfolding n19 n20 two_faces_run
    using two_faces_step by (simp add: reported_readings_def)
qed

lemma process_frame_face_of:
  "0 \<le> eh \<Longrightarrow> 0 \<le> mh \<Longrightarrow>
   process_frame d [face_of eh mh] =
     (fst (face_update (Fin (eh / 10)) (Fin (mh / 5)) (d, init_status d)),
      Inr (risk_of (snd (face_update (Fin (eh / 10)) (Fin (mh / 5)) (d, init_status d)))))"
  by (simp add: process_frame_single face_geometry_face_of)

lemma face_update_bounds:
  "blink_count d \<le> blink_count (fst (face_update ear mar (d, st)))
   \<and> blink_count (fst (face_update ear mar (d, st))) \<le> blink_count d + 1
   \<and> yawn_count d \<le> yawn_count (fst (face_update ear mar (d, st)))
   \<and> yawn_count (fst (face_update ear mar (d, st))) \<le> yawn_count d + 1
   \<and> (0 \<le> counter d \<longrightarrow> 0 \<le> counter (fst (face_update ear mar (d, st))))"
  by (simp add: face_update_def drowsiness_logic_def yawn_logic_def Let_def)

lemma process_faces_bounds:
  "blink_count d \<le> blink_count (fst (process_faces rects (d, st)))
   \<and> blink_count (fst (process_faces rects (d, st))) \<le> blink_count d + int (length rects)
   \<and> yawn_count d \<le> yawn_count (fst (process_faces rects (d, st)))
   \<and> yawn_count (fst (process_faces rects (d, st))) \<le> yawn_count d + int (length rects)
   \<and> (0 \<le> counter d \<longrightarrow> 0 \<le> counter (fst (process_faces rects (d, st))))"
proof (induction rects arbitrary: d st)
  case Nil
  then show ?case by simp
next
  case (Cons sh rects)
  show ?case
  proof (cases "face_geometry sh")
    case (Inl e)
    then show ?thesis by simp
  next
    case (Inr g)
    obtain ear mar where g: "g = (ear, mar)" by (cases g)
    obtain d1 st1 where u: "face_update ear mar (d, st) = (d1, st1)"
      by (cases "face_update ear mar (d, st)")
    from face_update_bounds [of d ear mar st] Cons.IH [of d1 st1] Inr g u
    show ?thesis by auto
  qed
qed

lemma fst_process_frame: "fst (process_frame d f) = fst (process_faces f (d, init_status d))"
  by (simp add: process_frame_def split: prod.splits sum.splits)

lemma process_frame_bounds:
  "blink_count d \<le> blink_count (fst (process_frame d f))
   \<and> blink_count (fst (process_frame d f)) \<le> blink_count d + int (length f)
   \<and> yawn_count d \<le> yawn_count (fst (process_frame d f))
   \<and> yawn_count (fst (process_frame d f)) \<le> yawn_count d + int (length f)
   \<and> (0 \<le> counter d \<longrightarrow> 0 \<le> counter (fst (process_frame d f)))"
  unfolding fst_process_frame by (rule process_faces_bounds)

lemma run_frames_counter_nonneg: "0 \<le> counter d \<Longrightarrow> 0 \<le> counter (run_frames d fs)"
proof (induction fs arbitrary: d)
  case Nil
  then show ?case by simp
next
  case (Cons f fs)
  then show ?case using process_frame_bounds [of d f] by simp
qed

lemma run_frames_monotone:
  "blink_count d \<le> blink_count (run_frames d fs) \<and> yawn_count d \<le> yawn_count (run_frames d fs)"
proof (induction fs arbitrary: d)
  case Nil
  then show ?case by simp
next
  case (Cons f fs)
  show ?case
    using process_frame_bounds [of d f] Cons.IH [of "fst (process_frame d f)"] by simp
qed

text \<open>
  Claim C9, as the code has it. For every sequence of calls on a new detector and every
  further frame: \<^verbatim>\<open>blink_count\<close> and \<^verbatim>\<open>yawn_count\<close> do not decrease, each grows by at most the
  number of faces detected in the frame (one step per face), and the run counter is never
  negative.
\<close>

theorem counters_monotone_per_face:
  "blink_count (run_frames init_detector fs)
     \<le> blink_count (fst (process_frame (run_frames init_detector fs) f))
   \<and> blink_count (fst (process_frame (run_frames init_detector fs) f))
     \<le> blink_count (run_frames init_detector fs) + int (length f)
   \<and> yawn_count (run_frames init_detector fs)
     \<le> yawn_count (fst (process_frame (run_frames init_detector fs) f))
   \<and> yawn_count (fst (process_frame (run_frames init_detector fs) f))
     \<le> yawn_count (run_frames init_detector fs) + int (length f)
   \<and> 0 \<le> counter (run_frames init_detector fs)
   \<and> 0 \<le> counter (fst (process_frame (run_frames init_detector fs) f))"
proof -
  have "0 \<le> counter (run_frames init_detector fs)"
    by (rule run_frames_counter_nonneg) (simp add: init_detector_def)
  then show ?thesis
    using process_frame_bounds [of "run_frames init_detector fs" f] by simp
qed

text \<open>
  Against claim C9 as stated: one frame with three faces (yawning, not yawning, yawning)
  raises \<^verbatim>\<open>yawn_count\<close> by 2.
\<close>

theorem two_yawns_in_one_frame_counterexample:
  "yawn_count (fst (process_frame init_detector [face_of 3 4, face_of 3 1, face_of 3 4]))
   = yawn_count init_detector + 2"
  by (simp add: fst_process_frame face_geometry_face_of face_update_def drowsiness_logic_def
      yawn_logic_def init_detector_def init_status_def EAR_THRESHOLD_def YAWN_THRESHOLD_def
      EAR_CONSEC_FRAMES_def)

text \<open>
  Claim C2, as the code has it. A frame without a detected face leaves the detector as it
  is and reports \<^verbatim>\<open>face_detected = False\<close>; the reported risk level is \<open>WARNING\<close> when
  \<^verbatim>\<open>yawn_count\<close> has reached 3 and \<open>NORMAL\<close> otherwise.
\<close>

theorem no_face_frame:
  "process_frame d [] = (d, Inr (risk_of (init_status d)))
   \<and> reported (process_frame d [])
     = Some (False, if 3 \<le> yawn_count d then ''WARNING'' else ''NORMAL'')"
  by (simp add: process_frame_def reported_def risk_of_def init_status_def)

theorem no_face_frame_witness:
  "reported (process_frame init_detector []) = Some (False, ''NORMAL'')
   \<and> fst (process_frame init_detector []) = init_detector"
proof -
  have "\<not> 3 \<le> yawn_count init_detector"
    by (simp add: init_detector_def)
  with no_face_frame [of init_detector] show ?thesis
    by auto
qed

lemma three_yawns:
  "run_frames init_detector
     [[face_of 3 4], [face_of 3 1], [face_of 3 4], [face_of 3 1], [face_of 3 4]]
   = \<lparr>counter = 0, blink_count = 0, yawn_count = 3, drowsy = False, yawning = True\<rparr>"
  by (simp add: process_frame_face_of face_update_def drowsiness_logic_def
      yawn_logic_def init_detector_def init_status_def EAR_THRESHOLD_def YAWN_THRESHOLD_def
      EAR_CONSEC_FRAMES_def)

text \<open>
  Against claim C2 as stated: after three yawns a frame without a face reports \<open>WARNING\<close>.
\<close>

theorem no_face_after_three_yawns_counterexample:
  "reported (process_frame
      (run_frames init_detector
         [[face_of 3 4], [face_of 3 1], [face_of 3 4], [face_of 3 1], [face_of 3 4]]) [])
   = Some (False, ''WARNING'')"
  unfolding three_yawns
  by (simp add: process_frame_def reported_def risk_of_def init_status_def)

subsection \<open>Aggregation\<close>

lemma get_risk_level_present:
  assumes "data ''heart_rate'' = Some hr" "data ''spo2'' = Some spo2" "data ''ear'' = Some ear"
    "data ''hrv'' = Some hrv"
  shows "get_risk_level data ear_thresh hr_critical spo2_warn =
     (if hr_critical < hr \<or> spo2 < spo2_warn - 3 \<or> ear < ear_thresh - 5 / 100 \<or> hrv < 15
      then Inr ''CRITICAL''
      else if hr_critical - 20 < hr \<or> spo2 < spo2_warn \<or> ear < ear_thresh
      then Inr ''WARNING''
      else (case data ''yawn_count'' of
              None \<Rightarrow> Inl (KeyError ''yawn_count'')
            | Some yawns \<Rightarrow> if 3 \<le> yawns then Inr ''WARNING'' else Inr ''NORMAL''))"
  using assms by (simp add: get_risk_level_def lookup_def split: option.splits)

lemma get_risk_level_calm_vitals:
  assumes "data ''ear'' = Some ear" "data ''yawn_count'' = Some yawns"
  shows "get_risk_level (calm_vitals data hr_critical spo2_warn) ear_thresh hr_critical spo2_warn
     = Inr (if ear < ear_thresh - 5 / 100 then ''CRITICAL''
            else if ear < ear_thresh \<or> 3 \<le> yawns then ''WARNING'' else ''NORMAL'')"
  using assms by (simp add: get_risk_level_def lookup_def calm_vitals_def)

lemma get_risk_level_calm_geometry:
  assumes "data ''heart_rate'' = Some hr" "data ''spo2'' = Some spo2" "data ''hrv'' = Some hrv"
  shows "get_risk_level (calm_geometry data ear_thresh) ear_thresh hr_critical spo2_warn
     = Inr (if hr_critical < hr \<or> spo2 < spo2_warn - 3 \<or> hrv < 15 then ''CRITICAL''
            else if hr_critical - 20 < hr \<or> spo2 < spo2_warn then ''WARNING'' else ''NORMAL'')"
  using assms by (simp add: get_risk_level_def lookup_def calm_geometry_def)

lemma get_risk_level_worse:
  assumes "data ''heart_rate'' = Some hr" "data ''spo2'' = Some spo2" "data ''ear'' = Some ear"
    "data ''hrv'' = Some hrv" "data ''yawn_count'' = Some yawns"
  shows "\<exists>g v.
     get_risk_level (calm_vitals data hr_critical spo2_warn) ear_thresh hr_critical spo2_warn
       = Inr g
     \<and> get_risk_level (calm_geometry data ear_thresh) ear_thresh hr_critical spo2_warn = Inr v
     \<and> get_risk_level data ear_thresh hr_critical spo2_warn = Inr (worse_level g v)"
  unfolding get_risk_level_calm_vitals [OF assms(3,5)]
    get_risk_level_calm_geometry [OF assms(1,2,4)]
    get_risk_level_present [OF assms(1-4)]
  using assms(5) by (simp add: worse_level_def level_rank_def)

text \<open>
  Claim C5, as the code has it. \<^verbatim>\<open>get_risk_level\<close> takes readings, not tiers. With all
  readings present it returns \<open>CRITICAL\<close> when \<open>heart_rate > hr_critical\<close>,
  \<open>spo2 < spo2_warn - 3\<close>, \<open>ear < ear_thresh - 0.05\<close> or \<open>hrv < 15\<close>; otherwise \<open>WARNING\<close> when
  \<open>heart_rate > hr_critical - 20\<close>, \<open>spo2 < spo2_warn\<close>, \<open>ear < ear_thresh\<close> or
  \<open>yawn_count \<ge> 3\<close>; otherwise \<open>NORMAL\<close>. This is the worse of the level that the geometry
  readings give with calm vitals and the level that the vitals give with calm geometry
  readings. No reading is optional: the first of \<^verbatim>\<open>heart_rate\<close>, \<^verbatim>\<open>spo2\<close>, \<^verbatim>\<open>ear\<close>, \<^verbatim>\<open>hrv\<close>
  that is missing raises \<open>KeyError\<close> with its name, and a missing \<^verbatim>\<open>yawn_count\<close> raises
  \<open>KeyError\<close> when no other reading crosses a threshold.
\<close>

theorem get_risk_level_from_readings:
  "(data ''heart_rate'' = Some hr \<and> data ''spo2'' = Some ox \<and> data ''ear'' = Some ear
      \<and> data ''hrv'' = Some hrv \<and> data ''yawn_count'' = Some yawns \<longrightarrow>
      get_risk_level data ear_thresh hr_critical spo2_warn =
        Inr (if hr_critical < hr \<or> ox < spo2_warn - 3 \<or> ear < ear_thresh - 5 / 100
                \<or> hrv < 15
             then ''CRITICAL''
             else if hr_critical - 20 < hr \<or> ox < spo2_warn \<or> ear < ear_thresh
                     \<or> 3 \<le> yawns
             then ''WARNING''
             else ''NORMAL'')
      \<and> (\<exists>g v.
            get_risk_level (calm_vitals data hr_critical spo2_warn)
                ear_thresh hr_critical spo2_warn = Inr g
            \<and> get_risk_level (calm_geometry data ear_thresh)
                ear_thresh hr_critical spo2_warn = Inr v
            \<and> get_risk_level data ear_thresh hr_critical spo2_warn = Inr (worse_level g v)))
   \<and> (data ''heart_rate'' = None \<longrightarrow>
      get_risk_level data ear_thresh hr_critical spo2_warn = Inl (KeyError ''heart_rate''))
   \<and> (data ''heart_rate'' = Some hr \<and> data ''spo2'' = None \<longrightarrow>
      get_risk_level data ear_thresh hr_critical spo2_warn = Inl (KeyError ''spo2''))
   \<and> (data ''heart_rate'' = Some hr \<and> data ''spo2'' = Some ox \<and> data ''ear'' = None \<longrightarrow>
      get_risk_level data ear_thresh hr_critical spo2_warn = Inl (KeyError ''ear''))
   \<and> (data ''heart_rate'' = Some hr \<and> data ''spo2'' = Some ox \<and> data ''ear'' = Some ear
      \<and> data ''hrv'' = None \<longrightarrow>
      get_risk_level data ear_thresh hr_critical spo2_warn = Inl (KeyError ''hrv''))
   \<and> (data ''heart_rate'' = Some hr \<and> data ''spo2'' = Some ox \<and> data ''ear'' = Some ear
      \<and> data ''hrv'' = Some hrv \<and> data ''yawn_count'' = None \<longrightarrow>
      get_risk_level data ear_thresh hr_critical spo2_warn =
        (if hr_critical < hr \<or> ox < spo2_warn - 3 \<or> ear < ear_thresh - 5 / 100
            \<or> hrv < 15
         then Inr ''CRITICAL''
         else if hr_critical - 20 < hr \<or> ox < spo2_warn \<or> ear < ear_thresh
         then Inr ''WARNING''
         else Inl (KeyError ''yawn_count'')))"
proof -
  have all: "get_risk_level data ear_thresh hr_critical spo2_warn =
        Inr (if hr_critical < hr \<or> ox < spo2_warn - 3 \<or> ear < ear_thresh - 5 / 100
                \<or> hrv < 15
             then ''CRITICAL''
             else if hr_critical - 20 < hr \<or> ox < spo2_warn \<or> ear < ear_thresh
                     \<or> 3 \<le> yawns
             then ''WARNING''
             else ''NORMAL'')"
    if "data ''heart_rate'' = Some hr" "data ''spo2'' = Some ox" "data ''ear'' = Some ear"
      "data ''hrv'' = Some hrv" "data ''yawn_count'' = Some yawns"
    using get_risk_level_present [OF that(1-4)] that(5) by simp
  have no_yawn: "get_risk_level data ear_thresh hr_critical spo2_warn =
        (if hr_critical < hr \<or> ox < spo2_warn - 3 \<or> ear < ear_thresh - 5 / 100
            \<or> hrv < 15
         then Inr ''CRITICAL''
         else if hr_critical - 20 < hr \<or> ox < spo2_warn \<or> ear < ear_thresh
         then Inr ''WARNING''
         else Inl (KeyError ''yawn_count''))"
    if "data ''heart_rate'' = Some hr" "data ''spo2'' = Some ox" "data ''ear'' = Some ear"
      "data ''hrv'' = Some hrv" "data ''yawn_count'' = None"
    using get_risk_level_present [OF that(1-4)] that(5) by simp
  have k1: "data ''heart_rate'' = None \<Longrightarrow>
      get_risk_level data ear_thresh hr_critical spo2_warn = Inl (KeyError ''heart_rate'')"
    by (simp add: get_risk_level_def lookup_def)
  have k2: "data ''heart_rate'' = Some hr \<Longrightarrow> data ''spo2'' = None \<Longrightarrow>
      get_risk_level data ear_thresh hr_critical spo2_warn = Inl (KeyError ''spo2'')"
    by (simp add: get_risk_level_def lookup_def)
  have k3: "data ''heart_rate'' = Some hr \<Longrightarrow> data ''spo2'' = Some ox \<Longrightarrow>
      data ''ear'' = None \<Longrightarrow>
      get_risk_level data ear_thresh hr_critical spo2_warn = Inl (KeyError ''ear'')"
    by (simp add: get_risk_level_def lookup_def)
  have k4: "data ''heart_rate'' = Some hr \<Longrightarrow> data ''spo2'' = Some ox \<Longrightarrow>
      data ''ear'' = Some ear \<Longrightarrow> data ''hrv'' = None \<Longrightarrow>
      get_risk_level data ear_thresh hr_critical spo2_warn = Inl (KeyError ''hrv'')"
    by (simp add: get_risk_level_def lookup_def)
  show ?thesis
    using all no_yawn k1 k2 k3 k4
      get_risk_level_worse [of data hr ox ear hrv yawns hr_critical spo2_warn ear_thresh]
    by blast
qed

theorem get_risk_level_from_readings_witness:
  "tired_and_racing ''heart_rate'' = Some 150 \<and> tired_and_racing ''spo2'' = Some 98
   \<and> tired_and_racing ''ear'' = Some (23 / 100) \<and> tired_and_racing ''hrv'' = Some 40
   \<and> tired_and_racing ''yawn_count'' = Some 0
   \<and> get_risk_level (calm_vitals tired_and_racing 140 95) (25 / 100) 140 95 = Inr ''WARNING''
   \<and> get_risk_level (calm_geometry tired_and_racing (25 / 100)) (25 / 100) 140 95
     = Inr ''CRITICAL''
   \<and> get_risk_level tired_and_racing (25 / 100) 140 95
     = Inr (worse_level ''WARNING'' ''CRITICAL'')
   \<and> get_risk_level tired_and_racing (25 / 100) 140 95 = Inr ''CRITICAL''
   \<and> get_risk_level Map.empty (25 / 100) 140 95 = Inl (KeyError ''heart_rate'')
   \<and> get_risk_level [''heart_rate'' \<mapsto> 70] (25 / 100) 140 95 = Inl (KeyError ''spo2'')
   \<and> get_risk_level [''heart_rate'' \<mapsto> 70, ''spo2'' \<mapsto> 98] (25 / 100) 140 95
     = Inl (KeyError ''ear'')
   \<and> get_risk_level [''heart_rate'' \<mapsto> 70, ''spo2'' \<mapsto> 98, ''ear'' \<mapsto> 3 / 10]
       (25 / 100) 140 95
     = Inl (KeyError ''hrv'')
   \<and> get_risk_level
       [''heart_rate'' \<mapsto> 70, ''spo2'' \<mapsto> 98, ''ear'' \<mapsto> 3 / 10, ''hrv'' \<mapsto> 50]
       (25 / 100) 140 95
     = Inl (KeyError ''yawn_count'')"
proof -
  note w = get_risk_level_from_readings
  have p: "tired_and_racing ''heart_rate'' = Some 150" "tired_and_racing ''spo2'' = Some 98"
    "tired_and_racing ''ear'' = Some (23 / 100)" "tired_and_racing ''hrv'' = Some 40"
    "tired_and_racing ''yawn_count'' = Some 0"
    by (simp_all add: tired_and_racing_def)
  note t = w [where data = tired_and_racing and hr = 150 and ox = 98 and ear = "23 / 100"
        and hrv = 40 and yawns = 0 and ear_thresh = "25 / 100" and hr_critical = 140
        and spo2_warn = 95]
  have r: "get_risk_level tired_and_racing (25 / 100) 140 95 = Inr ''CRITICAL''"
    using t p by simp
  have "\<exists>g v.
            get_risk_level (calm_vitals tired_and_racing 140 95) (25 / 100) 140 95 = Inr g
            \<and> get_risk_level (calm_geometry tired_and_racing (25 / 100)) (25 / 100) 140 95
              = Inr v
            \<and> get_risk_level tired_and_racing (25 / 100) 140 95 = Inr (worse_level g v)"
    using t p by blast
  then obtain g v where
    g: "get_risk_level (calm_vitals tired_and_racing 140 95) (25 / 100) 140 95 = Inr g"
    and v: "get_risk_level (calm_geometry tired_and_racing (25 / 100)) (25 / 100) 140 95 = Inr v"
    and gv: "get_risk_level tired_and_racing (25 / 100) 140 95 = Inr (worse_level g v)"
    by blast
  have g': "g = ''WARNING''"
    using g get_risk_level_calm_vitals [OF p(3,5), of 140 95 "25 / 100"] by simp
  have v': "v = ''CRITICAL''"
    using v get_risk_level_calm_geometry [OF p(1,2,4), of "25 / 100" 140 95] by simp
  have k1: "get_risk_level Map.empty (25 / 100) 140 95 = Inl (KeyError ''heart_rate'')"
    using w [where data = Map.empty and ear_thresh = "25 / 100" and hr_critical = 140
        and spo2_warn = 95] by simp
  have k2: "get_risk_level [''heart_rate'' \<mapsto> 70] (25 / 100) 140 95 = Inl (KeyError ''spo2'')"
    using w [where data = "[''heart_rate'' \<mapsto> 70]" and hr = 70 and ear_thresh = "25 / 100"
        and hr_critical = 140 and spo2_warn = 95] by simp
  have k3: "get_risk_level [''heart_rate'' \<mapsto> 70, ''spo2'' \<mapsto> 98] (25 / 100) 140 95
            = Inl (KeyError ''ear'')"
    using w [where data = "[''heart_rate'' \<mapsto> 70, ''spo2'' \<mapsto> 98]" and hr = 70 and ox = 98
        and ear_thresh = "25 / 100" and hr_critical = 140 and spo2_warn = 95] by simp
  have k4: "get_risk_level [''heart_rate'' \<mapsto> 70, ''spo2'' \<mapsto> 98, ''ear'' \<mapsto> 3 / 10]
              (25 / 100) 140 95 = Inl (KeyError ''hrv'')"
    using w [where data = "[''heart_rate'' \<mapsto> 70, ''spo2'' \<mapsto> 98, ''ear'' \<mapsto> 3 / 10]"
        and hr = 70 and ox = 98 and ear = "3 / 10"
        and ear_thresh = "25 / 100" and hr_critical = 140 and spo2_warn = 95] by simp
  have k5: "get_risk_level
              [''heart_rate'' \<mapsto> 70, ''spo2'' \<mapsto> 98, ''ear'' \<mapsto> 3 / 10, ''hrv'' \<mapsto> 50]
              (25 / 100) 140 95 = Inl (KeyError ''yawn_count'')"
    using w [where data = "[''heart_rate'' \<mapsto> 70, ''spo2'' \<mapsto> 98, ''ear'' \<mapsto> 3 / 10,
                            ''hrv'' \<mapsto> 50]"
        and hr = 70 and ox = 98 and ear = "3 / 10" and hrv = 50
        and ear_thresh = "25 / 100" and hr_critical = 140 and spo2_warn = 95] by simp
  show ?thesis
    using p r g v gv k1 k2 k3 k4 k5 unfolding g' v' by simp
qed

text \<open>
  Against claim C5 as stated: a detector that reports the eye ratio 0.24 and two yawns is
  at tier \<open>NORMAL\<close>, a classifier pair reports \<open>NORMAL\<close> for heart rate 110, HRV 25 and
  SpO2 96, the worse of the two tiers is \<open>NORMAL\<close>, and \<^verbatim>\<open>get_risk_level\<close> returns
  \<open>WARNING\<close> for these readings.
\<close>

theorem readings_not_tiers_counterexample:
  "reported_readings
     (process_frame
        (run_frames init_detector [[face_of 3 4], [face_of 3 1], [face_of 3 4]])
        [face_of (24 / 10) 1])
     = Some (True, Fin (24 / 100), 2, tier_name NORMAL)
   \<and> predict (fixed_model [9 / 10, 1 / 10, 0] [8 / 10, 2 / 10, 0]) 110 25 96 (365 / 10) 0 12
     = Inr \<lparr>risk_label = 0, p_risk_level = tier_name NORMAL, confidence = 845 / 10,
            p_heart_rate = 110, p_hrv = 25, p_spo2 = 96, p_skin_temp = 365 / 10\<rparr>
   \<and> warning_readings ''ear'' = Some (24 / 100)
   \<and> warning_readings ''yawn_count'' = Some 2
   \<and> warning_readings ''heart_rate'' = Some 110
   \<and> warning_readings ''hrv'' = Some 25
   \<and> warning_readings ''spo2'' = Some 96
   \<and> aggregate_spec (Some NORMAL) (Some NORMAL) = Some NORMAL
   \<and> get_risk_level warning_readings (25 / 100) 140 95 = Inr (tier_name WARNING)"
proof -
  have d: "run_frames init_detector [[face_of 3 4], [face_of 3 1], [face_of 3 4]]
           = \<lparr>counter = 0, blink_count = 0, yawn_count = 2, drowsy = False, yawning = True\<rparr>"
    by (simp add: process_frame_face_of face_update_def drowsiness_logic_def
        yawn_logic_def init_detector_def init_status_def EAR_THRESHOLD_def YAWN_THRESHOLD_def
        EAR_CONSEC_FRAMES_def)
  have a: "reported_readings
     (process_frame
        (run_frames init_detector [[face_of 3 4], [face_of 3 1], [face_of 3 4]])
        [face_of (24 / 10) 1])
     = Some (True, Fin (24 / 100), 2, tier_name NORMAL)"
    unfolding d
    by (simp add: reported_readings_def process_frame_face_of face_update_def
        drowsiness_logic_def yawn_logic_def init_status_def risk_of_def EAR_THRESHOLD_def
        YAWN_THRESHOLD_def EAR_CONSEC_FRAMES_def round_digits_def round_half_even_def)
  have b: "predict (fixed_model [9 / 10, 1 / 10, 0] [8 / 10, 2 / 10, 0]) 110 25 96 (365 / 10) 0 12
     = Inr \<lparr>risk_label = 0, p_risk_level = tier_name NORMAL, confidence = 845 / 10,
            p_heart_rate = 110, p_hrv = 25, p_spo2 = 96, p_skin_temp = 365 / 10\<rparr>"
    by (simp add: predict_def fuse_predictions_def combine_def fixed_model_def RISK_LABELS_def
        round_digits_def round_half_even_def Let_def)
  have c: "get_risk_level warning_readings (25 / 100) 140 95 = Inr (tier_name WARNING)"
    by (simp add: get_risk_level_def lookup_def warning_readings_def)
  show ?thesis
    using a b c by (simp add: warning_readings_def worse_def)
qed

subsection \<open>Fusion\<close>

lemma argmax_less: "xs \<noteq> [] \<Longrightarrow> argmax xs < length xs"
  by (induction xs rule: argmax.induct) (auto simp: Let_def)

lemma argmax_greatest: "i < length xs \<Longrightarrow> xs ! i \<le> xs ! argmax xs"
proof (induction xs arbitrary: i rule: argmax.induct)
  case 1
  then show ?case by simp
next
  case (2 x)
  then show ?case by simp
next
  case (3 x y ys)
  show ?case
  proof (cases i)
    case 0
    then show ?thesis by (auto simp: Let_def)
  next
    case (Suc k)
    with 3 have "(y # ys) ! k \<le> (y # ys) ! argmax (y # ys)" by simp
    with Suc show ?thesis by (auto simp: Let_def)
  qed
qed

lemma argmax_first: "i < argmax xs \<Longrightarrow> xs ! i < xs ! argmax xs"
proof (induction xs arbitrary: i rule: argmax.induct)
  case 1
  then show ?case by simp
next
  case (2 x)
  then show ?case by simp
next
  case (3 x y ys)
  show ?case
  proof (cases i)
    case 0
    with 3 show ?thesis by (auto simp: Let_def split: if_splits)
  next
    case (Suc k)
    with 3 show ?thesis by (auto simp: Let_def split: if_splits)
  qed
qed

lemma max_of_Max:
  assumes "xs \<noteq> []"
  shows "max_of xs = Max (set xs)"
proof (cases xs)
  case Nil
  with assms show ?thesis by simp
next
  case (Cons a list)
  then show ?thesis using Max.set_eq_fold [of a list] by simp
qed

lemma max_of_argmax:
  assumes "xs \<noteq> []"
  shows "max_of xs = xs ! argmax xs"
proof -
  have "Max (set xs) = xs ! argmax xs"
  proof (rule Max_eqI)
    show "finite (set xs)" by simp
    show "y \<le> xs ! argmax xs" if "y \<in> set xs" for y
      using that argmax_greatest by (auto simp: in_set_conv_nth)
    show "xs ! argmax xs \<in> set xs"
      using assms by (simp add: argmax_less)
  qed
  with assms show ?thesis by (simp add: max_of_Max)
qed

lemma round_half_even_close: "\<bar>of_int (round_half_even x) - x\<bar> \<le> 1 / 2"
  unfolding round_half_even_def Let_def by (auto split: if_splits)

lemma round_digits_one:
  "\<bar>round_digits x 1 - x\<bar> \<le> 1 / 20 \<and> round_digits x 1 * 10 = of_int (round_half_even (x * 10))"
  using round_half_even_close [of "x * 10"] by (simp add: round_digits_def field_simps)

lemma combine3:
  "combine w1 [a0, a1, a2] w2 [b0, b1, b2] = [w1 * a0 + w2 * b0, w1 * a1 + w2 * b1, w1 * a2 + w2 * b2]"
  by (simp add: combine_def)

lemma length_combine: "length (combine w1 a w2 b) = min (length a) (length b)"
  by (simp add: combine_def)

lemma RISK_LABELS_some:
  "l < 3 \<Longrightarrow> RISK_LABELS l = Some (tier_name (if l = 0 then NORMAL else if l = 1 then WARNING else CRITICAL))"
  by (auto simp: RISK_LABELS_def)

lemma predict_trained:
  assumes "is_trained m"
    and "rf_predict_proba m (scaler_transform m [hr, hrv, spo2, temp, act, tod]) = pa"
    and "gb_predict_proba m (scaler_transform m [hr, hrv, spo2, temp, act, tod]) = pb"
    and "length pa = 3" and "length pb = 3"
    and "c = combine (45 / 100) pa (55 / 100) pb"
  shows "\<exists>level. RISK_LABELS (argmax c) = Some level \<and>
     predict m hr hrv spo2 temp act tod =
       Inr \<lparr>risk_label = int (argmax c), p_risk_level = level,
            confidence = round_digits (c ! argmax c * 100) 1,
            p_heart_rate = hr, p_hrv = hrv, p_spo2 = spo2, p_skin_temp = temp\<rparr>"
proof -
  have len: "length c = 3" using assms by (simp add: length_combine)
  then have ne: "c \<noteq> []" by auto
  have lt: "argmax c < 3" using argmax_less [OF ne] len by simp
  from RISK_LABELS_some [OF lt] obtain level where lv: "RISK_LABELS (argmax c) = Some level"
    by blast
  have "predict m hr hrv spo2 temp act tod =
       Inr \<lparr>risk_label = int (argmax c), p_risk_level = level,
            confidence = round_digits (c ! argmax c * 100) 1,
            p_heart_rate = hr, p_hrv = hrv, p_spo2 = spo2, p_skin_temp = temp\<rparr>"
    using assms(1,2,3) ne lv max_of_argmax [OF ne]
    by (simp add: predict_def fuse_predictions_def Let_def assms(6))
  with lv show ?thesis by blast
qed

lemma combine_as_list:
  assumes "length pa = 3" "length pb = 3"
  shows "combine w1 pa w2 pb =
         [w1 * pa ! 0 + w2 * pb ! 0, w1 * pa ! 1 + w2 * pb ! 1, w1 * pa ! 2 + w2 * pb ! 2]"
proof -
  from assms(1) obtain a0 a1 a2 where a: "pa = [a0, a1, a2]"
    by (auto simp: length_Suc_conv numeral_3_eq_3)
  from assms(2) obtain b0 b1 b2 where b: "pb = [b0, b1, b2]"
    by (auto simp: length_Suc_conv numeral_3_eq_3)
  show ?thesis by (simp add: a b combine3)
qed

text \<open>
  Claim C3. For a trained model whose classifiers return the three-class probabilities
  \<open>pa\<close> and \<open>pb\<close>, \<^verbatim>\<open>predict\<close> combines them to \<open>0.45 * pa + 0.55 * pb\<close> component by
  component, selects the (first) index of a largest combined probability, names its tier,
  and reports as confidence that probability times 100, rounded to one decimal.
\<close>

theorem fused_prediction:
  assumes "is_trained m"
    and "rf_predict_proba m (scaler_transform m [hr, hrv, spo2, temp, act, tod]) = pa"
    and "gb_predict_proba m (scaler_transform m [hr, hrv, spo2, temp, act, tod]) = pb"
    and "length pa = 3" and "length pb = 3"
    and "c = [45 / 100 * pa ! 0 + 55 / 100 * pb ! 0,
              45 / 100 * pa ! 1 + 55 / 100 * pb ! 1,
              45 / 100 * pa ! 2 + 55 / 100 * pb ! 2]"
  shows "\<exists>l level.
           predict m hr hrv spo2 temp act tod =
             Inr \<lparr>risk_label = int l, p_risk_level = level,
                  confidence = round_digits (c ! l * 100) 1,
                  p_heart_rate = hr, p_hrv = hrv, p_spo2 = spo2, p_skin_temp = temp\<rparr>
           \<and> l < 3 \<and> RISK_LABELS l = Some level
           \<and> (\<forall>i < 3. c ! i \<le> c ! l) \<and> (\<forall>i < l. c ! i < c ! l)
           \<and> \<bar>round_digits (c ! l * 100) 1 - c ! l * 100\<bar> \<le> 1 / 20
           \<and> round_digits (c ! l * 100) 1 * 10 = of_int (round_half_even (c ! l * 100 * 10))"
proof -
  have c: "c = combine (45 / 100) pa (55 / 100) pb"
    using combine_as_list [OF assms(4,5)] assms(6) by simp
  have len: "length c = 3" using assms(6) by simp
  then have ne: "c \<noteq> []" by auto
  from predict_trained [OF assms(1-5) c] obtain level
    where lv: "RISK_LABELS (argmax c) = Some level"
      and p: "predict m hr hrv spo2 temp act tod =
        Inr \<lparr>risk_label = int (argmax c), p_risk_level = level,
             confidence = round_digits (c ! argmax c * 100) 1,
             p_heart_rate = hr, p_hrv = hrv, p_spo2 = spo2, p_skin_temp = temp\<rparr>"
    by blast
  have lt: "argmax c < 3" using argmax_less [OF ne] len by simp
  have ge: "\<forall>i < 3. c ! i \<le> c ! argmax c" using argmax_greatest [of _ c] len by simp
  have first: "\<forall>i < argmax c. c ! i < c ! argmax c" using argmax_first [of _ c] by simp
  show ?thesis
    using p lt lv ge first round_digits_one [of "c ! argmax c * 100"] by blast
qed

theorem fused_prediction_witness:
  "is_trained (fixed_model [1 / 10, 8 / 10, 1 / 10] [0, 2 / 10, 8 / 10])
   \<and> length [1 / 10, 8 / 10, 1 / 10 :: real] = 3 \<and> length [0, 2 / 10, 8 / 10 :: real] = 3
   \<and> combine (45 / 100) [1 / 10, 8 / 10, 1 / 10] (55 / 100) [0, 2 / 10, 8 / 10]
     = [45 / 1000, 47 / 100, 485 / 1000]
   \<and> predict (fixed_model [1 / 10, 8 / 10, 1 / 10] [0, 2 / 10, 8 / 10]) 135 18 93 (375 / 10) 1 3
     = Inr \<lparr>risk_label = 2, p_risk_level = ''CRITICAL'', confidence = 485 / 10,
            p_heart_rate = 135, p_hrv = 18, p_spo2 = 93, p_skin_temp = 375 / 10\<rparr>"
proof -
  let ?m = "fixed_model [1 / 10, 8 / 10, 1 / 10] [0, 2 / 10, 8 / 10]"
  let ?c = "[45 / 1000, 47 / 100, 485 / 1000] :: real list"
  have t: "is_trained ?m" by (simp add: fixed_model_def)
  have a: "rf_predict_proba ?m (scaler_transform ?m [135, 18, 93, 375 / 10, 1, 3])
           = [1 / 10, 8 / 10, 1 / 10]"
    by (simp add: fixed_model_def)
  have b: "gb_predict_proba ?m (scaler_transform ?m [135, 18, 93, 375 / 10, 1, 3])
           = [0, 2 / 10, 8 / 10]"
    by (simp add: fixed_model_def)
  have c: "?c = [45 / 100 * [1 / 10, 8 / 10, 1 / 10] ! 0 + 55 / 100 * [0, 2 / 10, 8 / 10] ! 0,
                 45 / 100 * [1 / 10, 8 / 10, 1 / 10] ! 1 + 55 / 100 * [0, 2 / 10, 8 / 10] ! 1,
                 45 / 100 * [1 / 10, 8 / 10, 1 / 10] ! 2 + 55 / 100 * [0, 2 / 10, 8 / 10] ! 2]"
    by simp
  from fused_prediction [OF t a b _ _ c] obtain l level where
    p: "predict ?m 135 18 93 (375 / 10) 1 3 =
          Inr \<lparr>risk_label = int l, p_risk_level = level,
               confidence = round_digits (?c ! l * 100) 1,
               p_heart_rate = 135, p_hrv = 18, p_spo2 = 93, p_skin_temp = 375 / 10\<rparr>"
    and l: "l < 3" and lv: "RISK_LABELS l = Some level" and ge: "\<forall>i < 3. ?c ! i \<le> ?c ! l"
    by auto
  have "(2::nat) < 3" by simp
  with ge have "?c ! 2 \<le> ?c ! l" by blast
  with l have l2: "l = 2"
    by (cases "l = 0"; cases "l = 1") (auto simp: less_Suc_eq numeral_3_eq_3)
  with lv have level: "level = ''CRITICAL''" by (simp add: RISK_LABELS_def)
  have r: "round_digits (?c ! 2 * 100) 1 = 485 / 10"
    by (simp add: round_digits_def round_half_even_def)
  have p': "predict ?m 135 18 93 (375 / 10) 1 3 =
          Inr \<lparr>risk_label = int 2, p_risk_level = ''CRITICAL'', confidence = 485 / 10,
               p_heart_rate = 135, p_hrv = 18, p_spo2 = 93, p_skin_temp = 375 / 10\<rparr>"
    using p unfolding l2 level r .
  show ?thesis
    using p' t by (simp add: combine_def)
qed

subsection \<open>Alert dispatcher\<close>

lemma cooldown_of_values:
  "cooldown_of ''NORMAL'' = 5" "cooldown_of ''WARNING'' = 10" "cooldown_of ''CRITICAL'' = 3"
  by (simp_all add: cooldown_of_def dict_get_def COOLDOWN_SECONDS_def)

lemma cooldown_of_unknown:
  "level \<notin> {''NORMAL'', ''WARNING'', ''CRITICAL''} \<Longrightarrow> cooldown_of level = 5"
  by (simp add: cooldown_of_def dict_get_def COOLDOWN_SECONDS_def)

lemma trigger_alert_suppressed:
  assumes "lat level = Some t" and "now - t < cooldown_of level"
  shows "trigger_alert level source details now stamp lat = (suppressed_alert level, lat, [])"
  using assms by (simp add: trigger_alert_def cooldown_of_def suppressed_alert_def)

lemma trigger_alert_fires:
  assumes "lat level = None \<or> (\<exists>t. lat level = Some t \<and> cooldown_of level \<le> now - t)"
  shows "\<not> is_suppressed (fst (trigger_alert level source details now stamp lat))"
    and "fst (snd (trigger_alert level source details now stamp lat)) = lat(level \<mapsto> now)"
  using assms
  by (auto simp: trigger_alert_def cooldown_of_def is_suppressed_def Let_def)

lemma is_suppressed_suppressed_alert: "is_suppressed (suppressed_alert level)"
  by (simp add: is_suppressed_def suppressed_alert_def)

lemma not_suppressed_state:
  assumes "\<not> is_suppressed (fst (trigger_alert level source details now stamp lat))"
  shows "fst (snd (trigger_alert level source details now stamp lat)) level = Some now"
proof (cases "lat level")
  case None
  then show ?thesis using trigger_alert_fires(2) [of lat level] by simp
next
  case (Some t)
  show ?thesis
  proof (cases "now - t < cooldown_of level")
    case True
    with Some assms show ?thesis
      by (simp add: trigger_alert_suppressed is_suppressed_suppressed_alert)
  next
    case False
    with Some show ?thesis using trigger_alert_fires(2) [of lat level now] by simp
  qed
qed

lemma trigger_alert_timestamp:
  assumes "lat level = Some t" and "t0 \<le> t" and "t0 \<le> now"
  shows "\<exists>t1. fst (snd (trigger_alert l source details now stamp lat)) level = Some t1 \<and> t0 \<le> t1"
  using assms by (auto simp: trigger_alert_def Let_def)

lemma state_after_timestamp:
  assumes "lat level = Some t" and "t0 \<le> t" and "\<forall>c \<in> set cs. t0 \<le> c_now c"
  shows "\<exists>t1. state_after cs lat level = Some t1 \<and> t0 \<le> t1"
  using assms
proof (induction cs arbitrary: lat t)
  case Nil
  then show ?case by simp
next
  case (Cons c cs)
  from Cons.prems have now: "t0 \<le> c_now c" and rest: "\<forall>d \<in> set cs. t0 \<le> c_now d"
    by simp_all
  from trigger_alert_timestamp
         [of lat level t t0 "c_now c" "c_level c" "c_source c" "c_details c" "c_stamp c"]
       Cons.prems(1,2) now
  obtain t1 where t1: "fst (snd (trigger_call c lat)) level = Some t1" and le: "t0 \<le> t1"
    unfolding trigger_call_def by blast
  from Cons.IH [of "fst (snd (trigger_call c lat))" t1] t1 le rest
  show ?case by simp
qed

lemma nth_run_alerts:
  "j < length cs \<Longrightarrow> run_alerts cs lat ! j = trigger_call (cs ! j) (state_after (take j cs) lat)"
proof (induction cs arbitrary: j lat)
  case Nil
  then show ?case by simp
next
  case (Cons c cs)
  then show ?case by (cases j) (simp_all add: Let_def)
qed

lemma state_after_snoc:
  "state_after (cs @ [c]) lat = fst (snd (trigger_call c (state_after cs lat)))"
  by (induction cs arbitrary: lat) simp_all

lemma state_after_append:
  "state_after (cs @ ds) lat = state_after ds (state_after cs lat)"
  by (induction cs arbitrary: lat) simp_all

lemma suppressed_within_cooldown:
  assumes sorted: "sorted (map c_now cs)"
    and ij: "i < j" "j < length cs"
    and same: "c_level (cs ! i) = c_level (cs ! j)"
    and fired: "\<not> is_suppressed (fst (run_alerts cs lat ! i))"
    and close: "c_now (cs ! j) - c_now (cs ! i) < cooldown_of (c_level (cs ! j))"
  shows "run_alerts cs lat ! j
         = (suppressed_alert (c_level (cs ! j)), state_after (take j cs) lat, [])"
proof -
  let ?lvl = "c_level (cs ! j)"
  let ?ti = "c_now (cs ! i)"
  have i: "i < length cs" using ij by simp
  have after_i: "state_after (take (Suc i) cs) lat ?lvl = Some ?ti"
  proof -
    have "take (Suc i) cs = take i cs @ [cs ! i]"
      using i by (simp add: take_Suc_conv_app_nth)
    moreover have "fst (snd (trigger_call (cs ! i) (state_after (take i cs) lat))) (c_level (cs ! i))
                   = Some ?ti"
      using fired nth_run_alerts [OF i, of lat] not_suppressed_state
      by (simp add: trigger_call_def)
    ultimately show ?thesis by (simp add: state_after_snoc same)
  qed
  have split: "take j cs = take (Suc i) cs @ drop (Suc i) (take j cs)"
  proof -
    have "take (Suc i) (take j cs) = take (Suc i) cs"
      using ij by (simp add: min_def)
    with append_take_drop_id [of "Suc i" "take j cs"] show ?thesis by simp
  qed
  have later: "\<forall>c \<in> set (drop (Suc i) (take j cs)). ?ti \<le> c_now c"
  proof
    fix c assume "c \<in> set (drop (Suc i) (take j cs))"
    then obtain k where k: "k < length (drop (Suc i) (take j cs))"
      and c: "c = drop (Suc i) (take j cs) ! k"
      by (auto simp: in_set_conv_nth)
    from k ij have kk: "Suc i + k < j" by simp
    with c ij have c': "c = cs ! (Suc i + k)" by simp
    have "map c_now cs ! i \<le> map c_now cs ! (Suc i + k)"
      using sorted kk ij by (intro sorted_nth_mono) simp_all
    with c' kk ij i show "?ti \<le> c_now c" by simp
  qed
  from state_after_timestamp
         [of "state_after (take (Suc i) cs) lat" ?lvl ?ti ?ti "drop (Suc i) (take j cs)"]
       after_i later
  obtain t1 where "state_after (drop (Suc i) (take j cs)) (state_after (take (Suc i) cs) lat) ?lvl
                   = Some t1" and le: "?ti \<le> t1"
    by auto
  then have t1: "state_after (take j cs) lat ?lvl = Some t1"
    using split state_after_append [of "take (Suc i) cs" "drop (Suc i) (take j cs)" lat]
    by simp
  from le close have "c_now (cs ! j) - t1 < cooldown_of ?lvl" by simp
  from trigger_alert_suppressed
         [of "state_after (take j cs) lat" ?lvl t1 "c_now (cs ! j)"
             "c_source (cs ! j)" "c_details (cs ! j)" "c_stamp (cs ! j)"]
       t1 this nth_run_alerts [OF ij(2), of lat]
  show ?thesis by (simp add: trigger_call_def)
qed

text \<open>
  Claim C4. In a sequence of calls whose clock readings do not decrease: when a call for a
  level fired and a later call for the same level comes before the cooldown of the level
  has passed, the later call is suppressed, leaves \<^verbatim>\<open>_last_alert_time\<close> as it was before it
  and has no effect; so two calls of one level that both fired are at least the cooldown
  apart. A call made once the cooldown has passed since the recorded time fires and records
  its own time. The cooldowns are 5, 10 and 3 seconds for NORMAL, WARNING and CRITICAL.
\<close>

theorem cooldown_between_alerts:
  "(sorted (map c_now cs) \<and> i < j \<and> j < length cs \<and> c_level (cs ! i) = c_level (cs ! j)
      \<and> \<not> is_suppressed (fst (run_alerts cs lat ! i))
      \<and> c_now (cs ! j) - c_now (cs ! i) < cooldown_of (c_level (cs ! j)) \<longrightarrow>
      run_alerts cs lat ! j
        = (suppressed_alert (c_level (cs ! j)), state_after (take j cs) lat, [])
      \<and> is_suppressed (fst (run_alerts cs lat ! j)))
   \<and> (sorted (map c_now cs) \<and> i < j \<and> j < length cs \<and> c_level (cs ! i) = c_level (cs ! j)
      \<and> \<not> is_suppressed (fst (run_alerts cs lat ! i))
      \<and> \<not> is_suppressed (fst (run_alerts cs lat ! j)) \<longrightarrow>
      cooldown_of (c_level (cs ! j)) \<le> c_now (cs ! j) - c_now (cs ! i))
   \<and> (lat level = Some t \<and> cooldown_of level \<le> now - t \<longrightarrow>
      \<not> is_suppressed (fst (trigger_alert level source details now stamp lat))
      \<and> fst (snd (trigger_alert level source details now stamp lat)) = lat(level \<mapsto> now))
   \<and> cooldown_of ''NORMAL'' = 5 \<and> cooldown_of ''WARNING'' = 10 \<and> cooldown_of ''CRITICAL'' = 3"
proof -
  have a: "run_alerts cs lat ! j
             = (suppressed_alert (c_level (cs ! j)), state_after (take j cs) lat, [])
           \<and> is_suppressed (fst (run_alerts cs lat ! j))"
    if "sorted (map c_now cs)" "i < j" "j < length cs" "c_level (cs ! i) = c_level (cs ! j)"
      "\<not> is_suppressed (fst (run_alerts cs lat ! i))"
      "c_now (cs ! j) - c_now (cs ! i) < cooldown_of (c_level (cs ! j))"
    using suppressed_within_cooldown [OF that] by (simp add: is_suppressed_suppressed_alert)
  have b: "cooldown_of (c_level (cs ! j)) \<le> c_now (cs ! j) - c_now (cs ! i)"
    if "sorted (map c_now cs)" "i < j" "j < length cs" "c_level (cs ! i) = c_level (cs ! j)"
      "\<not> is_suppressed (fst (run_alerts cs lat ! i))"
      "\<not> is_suppressed (fst (run_alerts cs lat ! j))"
  proof (rule ccontr)
    assume "\<not> cooldown_of (c_level (cs ! j)) \<le> c_now (cs ! j) - c_now (cs ! i)"
    then have "c_now (cs ! j) - c_now (cs ! i) < cooldown_of (c_level (cs ! j))" by simp
    from a [OF that(1-5) this] that(6) show False by simp
  qed
  have c: "\<not> is_suppressed (fst (trigger_alert level source details now stamp lat))
      \<and> fst (snd (trigger_alert level source details now stamp lat)) = lat(level \<mapsto> now)"
    if "lat level = Some t" "cooldown_of level \<le> now - t"
    using trigger_alert_fires [of lat level now source details stamp] that by simp
  show ?thesis
    using a b c cooldown_of_values by blast
qed

theorem cooldown_between_alerts_witness:
  "sorted (map c_now [critical_at 0, critical_at 2, critical_at (31 / 10)])
   \<and> \<not> is_suppressed
         (fst (run_alerts [critical_at 0, critical_at 2, critical_at (31 / 10)] Map.empty ! 0))
   \<and> c_now ([critical_at 0, critical_at 2, critical_at (31 / 10)] ! 1)
       - c_now ([critical_at 0, critical_at 2, critical_at (31 / 10)] ! 0)
     < cooldown_of ''CRITICAL''
   \<and> run_alerts [critical_at 0, critical_at 2, critical_at (31 / 10)] Map.empty ! 1
     = (suppressed_alert ''CRITICAL'', [''CRITICAL'' \<mapsto> 0], [])
   \<and> \<not> is_suppressed
         (fst (run_alerts [critical_at 0, critical_at 2, critical_at (31 / 10)] Map.empty ! 2))
   \<and> cooldown_of ''CRITICAL''
     \<le> c_now ([critical_at 0, critical_at 2, critical_at (31 / 10)] ! 2)
       - c_now ([critical_at 0, critical_at 2, critical_at (31 / 10)] ! 0)
   \<and> fst (snd (trigger_alert ''CRITICAL'' ''FUSION'' None (31 / 10) ''2024-01-01 00:00:03''
                  [''CRITICAL'' \<mapsto> 0]))
     = [''CRITICAL'' \<mapsto> 31 / 10]"
proof -
  let ?cs = "[critical_at 0, critical_at 2, critical_at (31 / 10)]"
  have s: "sorted (map c_now ?cs)" by (simp add: critical_at_def)
  have lv: "c_level (?cs ! 0) = c_level (?cs ! 1)" "c_level (?cs ! 0) = c_level (?cs ! 2)"
    "c_level (?cs ! 1) = ''CRITICAL''" "c_level (?cs ! 2) = ''CRITICAL''"
    by (simp_all add: critical_at_def)
  have t: "c_now (?cs ! 0) = 0" "c_now (?cs ! 1) = 2" "c_now (?cs ! 2) = 31 / 10"
    by (simp_all add: critical_at_def)
  have cd: "cooldown_of ''CRITICAL'' = 3" by (rule cooldown_of_values)
  have f0: "\<not> is_suppressed (fst (run_alerts ?cs Map.empty ! 0))"
    by (simp add: trigger_call_def trigger_alert_def is_suppressed_def Let_def critical_at_def)
  have st1: "state_after (take 1 ?cs) Map.empty = [''CRITICAL'' \<mapsto> 0]"
    by (simp add: trigger_call_def trigger_alert_def Let_def critical_at_def)
  have f2: "\<not> is_suppressed (fst (run_alerts ?cs Map.empty ! 2))"
    by (simp add: trigger_call_def trigger_alert_def is_suppressed_def Let_def critical_at_def
        dict_get_def COOLDOWN_SECONDS_def)
  note w1 = cooldown_between_alerts [where cs = ?cs and i = 0 and j = 1 and lat = Map.empty]
  note w2 = cooldown_between_alerts [where cs = ?cs and i = 0 and j = 2 and lat = Map.empty]
  note w3 = cooldown_between_alerts [where lat = "[''CRITICAL'' \<mapsto> 0]"
      and level = "''CRITICAL''" and t = 0 and now = "31 / 10" and source = "''FUSION''"
      and details = None and stamp = "''2024-01-01 00:00:03''"]
  have r1: "run_alerts ?cs Map.empty ! 1 = (suppressed_alert ''CRITICAL'', [''CRITICAL'' \<mapsto> 0], [])"
    using w1 s lv t cd f0 st1 by simp
  have gap: "cooldown_of ''CRITICAL'' \<le> c_now (?cs ! 2) - c_now (?cs ! 0)"
    using w2 s lv f0 f2 by simp
  have fire: "fst (snd (trigger_alert ''CRITICAL'' ''FUSION'' None (31 / 10)
                          ''2024-01-01 00:00:03'' [''CRITICAL'' \<mapsto> 0]))
              = [''CRITICAL'' \<mapsto> 31 / 10]"
    using w3 cd by simp
  show ?thesis
    using s f0 t cd r1 f2 gap fire by simp
qed

text \<open>
  Claim C10. For a level other than NORMAL, WARNING and CRITICAL the cooldown is 5 seconds;
  within it the call is suppressed; otherwise the call records its time under that level and
  returns the message \<^verbatim>\<open>Unknown risk level\<close>, an empty action and \<^verbatim>\<open>suppressed = False\<close>, and
  starts no sound thread.
\<close>

theorem unknown_level_alert:
  assumes "level \<notin> {''NORMAL'', ''WARNING'', ''CRITICAL''}"
  shows "cooldown_of level = 5
    \<and> (lat level = Some t \<and> now - t < 5 \<longrightarrow>
       trigger_alert level source details now stamp lat = (suppressed_alert level, lat, []))
    \<and> (lat level = None \<or> (lat level = Some t \<and> 5 \<le> now - t) \<longrightarrow>
       fst (trigger_alert level source details now stamp lat) ''message''
         = Some (VStr ''Unknown risk level'')
       \<and> fst (trigger_alert level source details now stamp lat) ''action'' = Some (VStr [])
       \<and> fst (trigger_alert level source details now stamp lat) ''suppressed''
         = Some (VBool False)
       \<and> fst (trigger_alert level source details now stamp lat) ''risk_level''
         = Some (VStr level)
       \<and> fst (snd (trigger_alert level source details now stamp lat)) = lat(level \<mapsto> now)
       \<and> (\<forall>l. StartBeepThread l
              \<notin> set (snd (snd (trigger_alert level source details now stamp lat)))))"
proof -
  have cd: "cooldown_of level = 5"
    using assms by (rule cooldown_of_unknown)
  have m: "dict_get messages level ''Unknown risk level'' = ''Unknown risk level''"
    and a: "dict_get actions level [] = []"
    using assms by (simp_all add: dict_get_def messages_def actions_def)
  have sup: "trigger_alert level source details now stamp lat = (suppressed_alert level, lat, [])"
    if "lat level = Some t" "now - t < 5"
    using that cd by (simp add: trigger_alert_suppressed)
  have fire: "trigger_alert level source details now stamp lat =
      ([''timestamp'' \<mapsto> VStr stamp, ''risk_level'' \<mapsto> VStr level,
        ''source'' \<mapsto> VStr source, ''message'' \<mapsto> VStr ''Unknown risk level'',
        ''action'' \<mapsto> VStr [],
        ''details'' \<mapsto> VDict (case details of None \<Rightarrow> [] | Some kv \<Rightarrow> kv),
        ''suppressed'' \<mapsto> VBool False],
       lat(level \<mapsto> now),
       [Print (NL # dict_get ALERT_COLORS level [] @ replicate 55 (CHR ''='')),
        Print (''  ['' @ stamp @ ''] '' @ source @ '' ALERT''),
        Print (''  RISK: '' @ level),
        Print (''  Unknown risk level''),
        Print (''  ACTION: '')]
       @ map (\<lambda>(k, v). Print (''  '' @ k @ '': '' @ v))
             (case details of None \<Rightarrow> [] | Some kv \<Rightarrow> kv)
       @ [Print (replicate 55 (CHR ''='') @ RESET @ [NL])])"
    if "lat level = None \<or> (lat level = Some t \<and> 5 \<le> now - t)"
    using that assms cd m a
    by (auto simp: trigger_alert_def Let_def cooldown_of_def)
  have nobeep: "StartBeepThread l \<notin> set (map (\<lambda>(k, v). Print (f k v)) kvs)" for l f kvs
    by (induction kvs) auto
  show ?thesis
    using cd sup fire nobeep by auto
qed

theorem unknown_level_alert_witness:
  "''DANGER'' \<notin> {''NORMAL'', ''WARNING'', ''CRITICAL''}
   \<and> fst (trigger_alert ''DANGER'' ''SYSTEM'' None 100 ''2024-01-01 00:01:40'' Map.empty)
       ''message'' = Some (VStr ''Unknown risk level'')
   \<and> fst (snd (trigger_alert ''DANGER'' ''SYSTEM'' None 100 ''2024-01-01 00:01:40'' Map.empty))
     = [''DANGER'' \<mapsto> 100]
   \<and> trigger_alert ''DANGER'' ''SYSTEM'' None 102 ''2024-01-01 00:01:42'' [''DANGER'' \<mapsto> 100]
     = (suppressed_alert ''DANGER'', [''DANGER'' \<mapsto> 100], [])"
proof -
  have n: "''DANGER'' \<notin> {''NORMAL'', ''WARNING'', ''CRITICAL''}" by simp
  note w1 = unknown_level_alert [OF n, where lat = Map.empty and now = 100
      and source = "''SYSTEM''" and details = None and stamp = "''2024-01-01 00:01:40''"]
  note w2 = unknown_level_alert [OF n, where lat = "[''DANGER'' \<mapsto> 100]" and t = 100
      and now = 102 and source = "''SYSTEM''" and details = None
      and stamp = "''2024-01-01 00:01:42''"]
  show ?thesis
    using n w1 w2 by simp
qed

end
